theory Spec2Isabelle
  imports Main
begin

section \<open>Chart resolution and verified acquisition (pkg/downloader/chart_downloader.go)\<close>

text \<open>
  A shallow embedding of \<^verbatim>\<open>chart_downloader.go\<close>. The functions of that file are
  translated one by one and keep their names. Everything the file calls but does not
  define (the URL library, the repository registry and index loaders, the transport
  constructors, the file system, the provenance library) is a field of the record
  \<open>env\<close>, so that the theorems hold for whatever those collaborators do. A Go
  function returning several values returns a tuple here, with \<open>None\<close> for \<open>nil\<close>; a
  dereference of \<open>nil\<close> (a run-time panic) makes the whole call return \<open>None\<close>.
\<close>

subsection \<open>Data\<close>

text \<open>\<^verbatim>\<open>type VerificationStrategy int\<close> with its four constants; \<open>iota\<close> gives their values.\<close>

datatype VerificationStrategy = VerifyNever | VerifyIfPossible | VerifyAlways | VerifyLater

fun iota :: "VerificationStrategy \<Rightarrow> int" where
  "iota VerifyNever = 0"
| "iota VerifyIfPossible = 1"
| "iota VerifyAlways = 2"
| "iota VerifyLater = 3"

text \<open>The fields of Go's \<^verbatim>\<open>url.URL\<close>; \<open>User\<close> is the user name and the optional password.\<close>

record URL =
  Scheme :: string
  Opaque :: string
  User :: "(string \<times> string option) option"
  Host :: string
  Path :: string
  RawPath :: string
  ForceQuery :: bool
  RawQuery :: string
  Fragment :: string

text \<open>\<^verbatim>\<open>url.Values\<close>: the values of each key, in the order they were added.\<close>

type_synonym Values = "(string \<times> string list) list"

text \<open>An error returned by a collaborator, kept as its message.\<close>

type_synonym ext_error = string

text \<open>
  The errors the file builds itself, one constructor per \<^verbatim>\<open>errors.New\<close>,
  \<^verbatim>\<open>errors.Errorf\<close> and \<^verbatim>\<open>errors.Wrap\<close> site, with the arguments of the format string.
  \<open>ErrNoOwnerRepo\<close> is the package's sentinel; \<open>External\<close> carries an error that a
  collaborator returned.
\<close>

datatype error =
    ErrNoOwnerRepo
  | External ext_error
  | InvalidChartURLFormat string
  | NonAbsoluteURLForm URL
  | NoURLFoundForRepository string
  | RepoNotFound string
  | NoCachedRepoFound error
  | ChartNotFoundInIndex string string string error
  | NoDownloadableURLs string
  | FailedToFetchProvenance string
  | StatFailed string
  | UnpackedChartsCannotBeVerified
  | ChartMustBeTgz
  | CouldNotLoadProvenanceFile string error
  | FailedToLoadKeyring error

text \<open>\<^verbatim>\<open>repo.Entry\<close>: one repository of the registry (repositories.yaml).\<close>

record Entry =
  Name :: string
  Cache :: string
  URL :: string
  Username :: string
  Password :: string
  CertFile :: string
  KeyFile :: string
  CAFile :: string

text \<open>\<^verbatim>\<open>repo.File\<close>: the registry, its repositories in file order.\<close>

record File =
  Repositories :: "Entry list"

text \<open>
  \<^verbatim>\<open>repo.ChartVersion\<close> and \<^verbatim>\<open>repo.IndexFile\<close>. \<open>Entries\<close> is a Go map from chart name
  to versions; it is kept as an association list so that the scan over it computes.
\<close>

record ChartVersion =
  Version :: string
  URLs :: "string list"
  Digest :: string

record IndexFile =
  Entries :: "(string \<times> ChartVersion list) list"

text \<open>
  Modelled from the spec: \<^verbatim>\<open>getter.HTTPGetter\<close>, whose declaration is not among the
  sources. The spec asks of a transport that it fetches bytes for a URL and can be
  configured with a user name and a password; the HTTP client itself, built by the
  constructor from the URL and the TLS files, is an opaque handle.
\<close>

record HTTPGetter =
  client :: nat
  username :: string
  password :: string

text \<open>
  \<^verbatim>\<open>getter.Getter\<close> is an interface: the value behind it is a \<^verbatim>\<open>*HTTPGetter\<close> or a
  getter built by one of the providers, opaque here.
\<close>

datatype Getter = HTTP HTTPGetter | Provided nat

text \<open>\<^verbatim>\<open>repo.ChartRepository\<close>: the two fields the downloader reads, both nilable.\<close>

record ChartRepository =
  Config :: "Entry option"
  Client :: "Getter option"

text \<open>
  Modelled from the spec: \<^verbatim>\<open>provenance.Verification\<close>, whose declaration is not among
  the sources: the signer's identity and the digest of the archive.
\<close>

record Verification =
  SignedBy :: "string option"
  FileHash :: string

text \<open>
  \<^verbatim>\<open>ChartDownloader\<close>. \<open>Out\<close> is the event log of a call, \<open>HelmHome\<close> and \<open>Getters\<close>
  only reach the collaborators and are part of \<open>env\<close>.
\<close>

record ChartDownloader =
  Verify :: VerificationStrategy
  Keyring :: string
  Username :: string
  Password :: string

text \<open>A node of the file system, and the file system as a map from paths.\<close>

datatype fsnode = Directory | RegularFile string

type_synonym fs = "string \<rightharpoonup> fsnode"

text \<open>What a call does to the outside world, in order.\<close>

datatype event =
    EvGet HTTPGetter string
  | EvClientGet Getter string
  | EvWriteFile string string
  | EvWarning string ext_error
  | EvVerifyChart string string

text \<open>
  The collaborators. \<open>LoadFile\<close> is \<^verbatim>\<open>repo.LoadFile(c.HelmHome.RepositoryFile())\<close>;
  \<open>LoadIndexFile name\<close> is \<^verbatim>\<open>repo.LoadIndexFile(c.HelmHome.CacheIndex(name))\<close>;
  \<open>NewHTTPGetter url\<close> is \<^verbatim>\<open>getter.NewHTTPGetter(url, "", "", "")\<close>;
  \<open>NewChartRepository rc\<close> is \<^verbatim>\<open>repo.NewChartRepository(rc, c.Getters)\<close>;
  \<open>WriteFile_fails path\<close> says whether \<^verbatim>\<open>ioutil.WriteFile\<close> to that path fails.
\<close>

record env =
  url_Parse :: "string \<Rightarrow> ext_error + URL"
  url_String :: "URL \<Rightarrow> string"
  url_Query :: "URL \<Rightarrow> Values"
  Values_Encode :: "Values \<Rightarrow> string"
  ResolveReference :: "URL \<Rightarrow> URL \<Rightarrow> URL"
  urlutil_Equal :: "string \<Rightarrow> string \<Rightarrow> bool"
  LoadFile :: "ext_error + File"
  LoadIndexFile :: "string \<Rightarrow> ext_error + IndexFile"
  IndexFile_Get :: "IndexFile \<Rightarrow> string \<Rightarrow> string \<Rightarrow> ext_error + ChartVersion"
  NewHTTPGetter :: "string \<Rightarrow> ext_error + HTTPGetter"
  NewChartRepository :: "Entry \<Rightarrow> ext_error + ChartRepository"
  HTTPGetter_Get :: "HTTPGetter \<Rightarrow> string \<Rightarrow> ext_error + string"
  Provided_Get :: "nat \<Rightarrow> string \<Rightarrow> ext_error + string"
  filepath_Base :: "string \<Rightarrow> string"
  filepath_Join :: "string \<Rightarrow> string \<Rightarrow> string"
  WriteFile_fails :: "string \<Rightarrow> ext_error option"
  NewFromKeyring :: "string \<Rightarrow> ext_error + nat"
  Signatory_Verify :: "nat \<Rightarrow> fs \<Rightarrow> string \<Rightarrow> string \<Rightarrow> Verification option \<times> ext_error option"

subsection \<open>Small library functions\<close>

text \<open>\<^verbatim>\<open>u.IsAbs()\<close>: the URL has a scheme.\<close>

definition IsAbs :: "URL \<Rightarrow> bool" where
  "IsAbs u = (Scheme u \<noteq> [])"

text \<open>\<^verbatim>\<open>strings.SplitN(s, "/", 2)\<close>: cut at the first slash, if there is one.\<close>

definition SplitN2 :: "string \<Rightarrow> string list" where
  "SplitN2 s =
     (if CHR ''/'' \<in> set s
      then [takeWhile (\<lambda>ch. ch \<noteq> CHR ''/'') s, tl (dropWhile (\<lambda>ch. ch \<noteq> CHR ''/'') s)]
      else [s])"

text \<open>\<^verbatim>\<open>strings.TrimSuffix(s, "/")\<close>: one trailing slash is removed, if there is one.\<close>

definition TrimSuffix_slash :: "string \<Rightarrow> string" where
  "TrimSuffix_slash s = (if s \<noteq> [] \<and> last s = CHR ''/'' then butlast s else s)"

text \<open>\<^verbatim>\<open>g.SetCredentials(username, password)\<close>.\<close>

definition SetCredentials :: "HTTPGetter \<Rightarrow> string \<times> string \<Rightarrow> HTTPGetter" where
  "SetCredentials g cred = g\<lparr>username := fst cred, password := snd cred\<rparr>"

text \<open>\<^verbatim>\<open>client.Get(url)\<close> through the interface.\<close>

fun Getter_Get :: "env \<Rightarrow> Getter \<Rightarrow> string \<Rightarrow> ext_error + string" where
  "Getter_Get e (HTTP g) url = HTTPGetter_Get e g url"
| "Getter_Get e (Provided n) url = Provided_Get e n url"

subsection \<open>Credentials and the registry\<close>

definition getRepoCredentials :: "ChartDownloader \<Rightarrow> ChartRepository option \<Rightarrow> string \<times> string" where
  "getRepoCredentials c r =
     (let username = ChartDownloader.Username c;
          password = ChartDownloader.Password c
      in case r of
           None \<Rightarrow> (username, password)
         | Some r' \<Rightarrow>
             (case Config r' of
                None \<Rightarrow> (username, password)
              | Some cfg \<Rightarrow>
                  (if username = [] then Entry.Username cfg else username,
                   if password = [] then Entry.Password cfg else password)))"

fun pickChartRepositoryConfigByName :: "string \<Rightarrow> Entry list \<Rightarrow> error + Entry" where
  "pickChartRepositoryConfigByName name [] = Inl (RepoNotFound name)"
| "pickChartRepositoryConfigByName name (rc # cfgs) =
     (if Name rc = name
      then (if URL rc = [] then Inl (NoURLFoundForRepository name) else Inr rc)
      else pickChartRepositoryConfigByName name cfgs)"

subsection \<open>The owner-repository scan\<close>

text \<open>The three inner loops of \<^verbatim>\<open>scanReposForURL\<close>: does the index list the URL?\<close>

fun urls_match :: "env \<Rightarrow> string \<Rightarrow> string list \<Rightarrow> bool" where
  "urls_match e u [] = False"
| "urls_match e u (dl # dls) = (if urlutil_Equal e u dl then True else urls_match e u dls)"

fun versions_match :: "env \<Rightarrow> string \<Rightarrow> ChartVersion list \<Rightarrow> bool" where
  "versions_match e u [] = False"
| "versions_match e u (ver # vers) =
     (if urls_match e u (URLs ver) then True else versions_match e u vers)"

fun entries_match :: "env \<Rightarrow> string \<Rightarrow> (string \<times> ChartVersion list) list \<Rightarrow> bool" where
  "entries_match e u [] = False"
| "entries_match e u (entry # entries) =
     (if versions_match e u (snd entry) then True else entries_match e u entries)"

text \<open>The outer loop, over the repositories in registry order.\<close>

fun scanRepos :: "env \<Rightarrow> string \<Rightarrow> Entry list \<Rightarrow> (error + Entry) option" where
  "scanRepos e u [] = Some (Inl ErrNoOwnerRepo)"
| "scanRepos e u (rc # rcs) =
     (case NewChartRepository e rc of
        Inl err \<Rightarrow> Some (Inl (External err))
      | Inr r \<Rightarrow>
          (case Config r of
             None \<Rightarrow> None
           | Some cfg \<Rightarrow>
               (case LoadIndexFile e (Name cfg) of
                  Inl err \<Rightarrow> Some (Inl (NoCachedRepoFound (External err)))
                | Inr i \<Rightarrow>
                    (if entries_match e u (Entries i) then Some (Inr rc)
                     else scanRepos e u rcs))))"

definition scanReposForURL :: "env \<Rightarrow> string \<Rightarrow> File \<Rightarrow> (error + Entry) option" where
  "scanReposForURL e u rf = scanRepos e u (Repositories rf)"

subsection \<open>Resolution\<close>

type_synonym resolved = "URL option \<times> ChartRepository option \<times> HTTPGetter option \<times> error option"

definition ResolveChartVersionAndGetRepo ::
  "env \<Rightarrow> ChartDownloader \<Rightarrow> string \<Rightarrow> string \<Rightarrow> resolved option" where
  "ResolveChartVersionAndGetRepo e c ref version =
     (case url_Parse e ref of
        Inl _ \<Rightarrow> Some (None, None, None, Some (InvalidChartURLFormat ref))
      | Inr u \<Rightarrow>
     (case LoadFile e of
        Inl err \<Rightarrow> Some (Some u, None, None, Some (External err))
      | Inr rf \<Rightarrow>
     (case NewHTTPGetter e ref of
        Inl err \<Rightarrow> Some (Some u, None, None, Some (External err))
      | Inr g \<Rightarrow>
     if IsAbs u \<and> length (Host u) > 0 \<and> length (Path u) > 0 then
       (case scanReposForURL e ref rf of
          None \<Rightarrow> None
        | Some (Inl err) \<Rightarrow>
            (if err = ErrNoOwnerRepo then
               (let r = \<lparr>Config = None, Client = Some (HTTP g)\<rparr>;
                    g' = SetCredentials g (getRepoCredentials c (Some r))
                in Some (Some u, Some (r\<lparr>Client := Some (HTTP g')\<rparr>), Some g', Some err))
             else Some (Some u, None, None, Some err))
        | Some (Inr rc) \<Rightarrow>
            (case NewChartRepository e rc of
               Inl err \<Rightarrow> Some (Some u, None, Some g, Some (External err))
             | Inr r \<Rightarrow> Some (Some u, Some r, Some g, None)))
     else
       (case SplitN2 (Path u) of
          [repoName, chartName] \<Rightarrow>
            (case pickChartRepositoryConfigByName repoName (Repositories rf) of
               Inl err \<Rightarrow> Some (Some u, None, None, Some err)
             | Inr rc \<Rightarrow>
            (case NewChartRepository e rc of
               Inl err \<Rightarrow> Some (Some u, None, None, Some (External err))
             | Inr r \<Rightarrow>
            (let g1 = SetCredentials g (getRepoCredentials c (Some r)) in
            (case Config r of
               None \<Rightarrow> None
             | Some cfg \<Rightarrow>
            (case LoadIndexFile e (Name cfg) of
               Inl err \<Rightarrow> Some (Some u, Some r, Some g1, Some (NoCachedRepoFound (External err)))
             | Inr i \<Rightarrow>
            (case IndexFile_Get e i chartName version of
               Inl err \<Rightarrow>
                 Some (Some u, Some r, Some g1,
                       Some (ChartNotFoundInIndex chartName version (Name cfg) (External err)))
             | Inr cv \<Rightarrow>
            (case URLs cv of
               [] \<Rightarrow> Some (Some u, Some r, Some g1, Some (NoDownloadableURLs ref))
             | first # _ \<Rightarrow>
            (case url_Parse e first of
               Inl _ \<Rightarrow> Some (None, Some r, Some g1, Some (InvalidChartURLFormat ref))
             | Inr u1 \<Rightarrow>
            if \<not> IsAbs u1 then
              (case url_Parse e (URL rc) of
                 Inl err \<Rightarrow> Some (None, Some r, None, Some (External err))
               | Inr repoURL \<Rightarrow>
                   (let q = url_Query e repoURL;
                        repoURL1 = repoURL\<lparr>Path := TrimSuffix_slash (Path repoURL) @ ''/''\<rparr>;
                        u2 = ResolveReference e repoURL1 u1;
                        u3 = u2\<lparr>RawQuery := Values_Encode e q\<rparr>
                    in case NewHTTPGetter e (URL rc) of
                         Inl err \<Rightarrow> Some (Some repoURL1, Some r, None, Some (External err))
                       | Inr g2 \<Rightarrow>
                           Some (Some u3, Some r,
                                 Some (SetCredentials g2 (getRepoCredentials c (Some r))), None)))
            else Some (Some u1, Some r, Some g1, None)))))))))
        | _ \<Rightarrow> Some (Some u, None, None, Some (NonAbsoluteURLForm u))))))"

text \<open>\<^verbatim>\<open>ResolveChartVersion\<close>: the same, with the repository's client for the repository.\<close>

definition ResolveChartVersion ::
  "env \<Rightarrow> ChartDownloader \<Rightarrow> string \<Rightarrow> string \<Rightarrow> (URL option \<times> Getter option \<times> error option) option" where
  "ResolveChartVersion e c ref version =
     (case ResolveChartVersionAndGetRepo e c ref version of
        None \<Rightarrow> None
      | Some (u, r, _, err) \<Rightarrow>
          (case r of
             Some r' \<Rightarrow> Some (u, Client r', err)
           | None \<Rightarrow> Some (u, None, err)))"

subsection \<open>Verification\<close>

text \<open>
  \<^verbatim>\<open>filepath.Ext\<close>: the suffix from the last dot of the last path element (scanning from
  the end and stopping at a separator), and \<^verbatim>\<open>strings.ToLower\<close> on ASCII letters.
\<close>

fun Ext_scan :: "string \<Rightarrow> string \<Rightarrow> string" where
  "Ext_scan [] acc = []"
| "Ext_scan (ch # rest) acc =
     (if ch = CHR ''/'' then []
      else if ch = CHR ''.'' then ch # acc
      else Ext_scan rest (ch # acc))"

definition filepath_Ext :: "string \<Rightarrow> string" where
  "filepath_Ext path = Ext_scan (rev path) []"

definition lower_char :: "char \<Rightarrow> char" where
  "lower_char ch =
     (if (65::nat) \<le> of_char ch \<and> of_char ch \<le> (90::nat)
      then char_of (of_char ch + (32::nat)) else ch)"

definition ToLower :: "string \<Rightarrow> string" where
  "ToLower s = map lower_char s"

definition isTar :: "string \<Rightarrow> bool" where
  "isTar filename = (ToLower (filepath_Ext filename) = ''.tgz'')"

text \<open>
  \<^verbatim>\<open>VerifyChart\<close>. \<^verbatim>\<open>os.Stat\<close> fails on a path the file system does not hold. The
  keyring loader and the signatory's \<^verbatim>\<open>Verify\<close> are collaborators.
\<close>

definition VerifyChart :: "env \<Rightarrow> fs \<Rightarrow> string \<Rightarrow> string \<Rightarrow> Verification option \<times> error option" where
  "VerifyChart e files path keyring =
     (case files path of
        None \<Rightarrow> (None, Some (StatFailed path))
      | Some Directory \<Rightarrow> (None, Some UnpackedChartsCannotBeVerified)
      | Some (RegularFile _) \<Rightarrow>
          (if \<not> isTar path then (None, Some ChartMustBeTgz)
           else
             (let provfile = path @ ''.prov'' in
              case files provfile of
                None \<Rightarrow> (None, Some (CouldNotLoadProvenanceFile provfile (StatFailed provfile)))
              | Some _ \<Rightarrow>
                  (case NewFromKeyring e keyring of
                     Inl err \<Rightarrow> (None, Some (FailedToLoadKeyring (External err)))
                   | Inr sig \<Rightarrow>
                       (case Signatory_Verify e sig files path provfile of
                          (ver, err) \<Rightarrow> (ver, map_option External err))))))"

subsection \<open>Download\<close>

text \<open>\<^verbatim>\<open>ioutil.WriteFile(path, data, 0644)\<close>: on success the path holds the data.\<close>

definition WriteFile :: "env \<Rightarrow> fs \<Rightarrow> string \<Rightarrow> string \<Rightarrow> ext_error + fs" where
  "WriteFile e files path data =
     (case WriteFile_fails e path of
        Some err \<Rightarrow> Inl err
      | None \<Rightarrow> Inr (files(path \<mapsto> RegularFile data)))"

text \<open>\<^verbatim>\<open>&provenance.Verification{}\<close>.\<close>

definition emptyVerification :: Verification where
  "emptyVerification = \<lparr>SignedBy = None, FileHash = []\<rparr>"

text \<open>
  \<^verbatim>\<open>DownloadTo\<close>. The result is the returned triple (\<open>None\<close> after a panic), the file
  system after the call and the events of the call.
\<close>

type_synonym downloaded = "string \<times> Verification option \<times> error option"

definition DownloadTo ::
  "env \<Rightarrow> ChartDownloader \<Rightarrow> string \<Rightarrow> string \<Rightarrow> string \<Rightarrow> fs \<Rightarrow> downloaded option \<times> fs \<times> event list" where
  "DownloadTo e c ref version dest files =
     (case ResolveChartVersionAndGetRepo e c ref version of
        None \<Rightarrow> (None, files, [])
      | Some (u, r, g, Some err) \<Rightarrow> (Some ([], None, Some err), files, [])
      | Some (None, r, g, None) \<Rightarrow> (None, files, [])
      | Some (Some u, r, None, None) \<Rightarrow> (None, files, [])
      | Some (Some u, r, Some g, None) \<Rightarrow>
     (let ev1 = [EvGet g (url_String e u)] in
      case HTTPGetter_Get e g (url_String e u) of
        Inl err \<Rightarrow> (Some ([], None, Some (External err)), files, ev1)
      | Inr data \<Rightarrow>
     (let name = filepath_Base e (Path u);
          destfile = filepath_Join e dest name;
          ev2 = ev1 @ [EvWriteFile destfile data]
      in
      case WriteFile e files destfile data of
        Inl err \<Rightarrow> (Some (destfile, None, Some (External err)), files, ev2)
      | Inr files1 \<Rightarrow>
     (let ver = emptyVerification in
      if iota (Verify c) > iota VerifyNever then
        (case r of
           None \<Rightarrow> (None, files1, ev2)
         | Some r' \<Rightarrow>
        (case Client r' of
           None \<Rightarrow> (None, files1, ev2)
         | Some cl \<Rightarrow>
        (let provurl = url_String e u @ ''.prov'';
             ev3 = ev2 @ [EvClientGet cl provurl]
         in
         case Getter_Get e cl provurl of
           Inl err \<Rightarrow>
             (if Verify c = VerifyAlways
              then (Some (destfile, Some ver, Some (FailedToFetchProvenance provurl)), files1, ev3)
              else (Some (destfile, Some ver, None), files1, ev3 @ [EvWarning ref err]))
         | Inr body \<Rightarrow>
        (let provfile = destfile @ ''.prov'';
             ev4 = ev3 @ [EvWriteFile provfile body]
         in
         case WriteFile e files1 provfile body of
           Inl err \<Rightarrow> (Some (destfile, None, Some (External err)), files1, ev4)
         | Inr files2 \<Rightarrow>
             (if Verify c \<noteq> VerifyLater then
                (case VerifyChart e files2 destfile (Keyring c) of
                   (ver', Some err) \<Rightarrow>
                     (Some (destfile, ver', Some err), files2,
                      ev4 @ [EvVerifyChart destfile (Keyring c)])
                 | (ver', None) \<Rightarrow>
                     (Some (destfile, ver', None), files2,
                      ev4 @ [EvVerifyChart destfile (Keyring c)]))
              else (Some (destfile, Some ver, None), files2, ev4))))))
      else (Some (destfile, Some ver, None), files1, ev2)))))"

subsection \<open>A model of Go's net/url and of the example environment\<close>

text \<open>
  The standard library is not part of the sources; the general theorems take its
  functions from \<open>env\<close>. For the examples the functions below follow \<^verbatim>\<open>net/url\<close> as
  it was when the file was written (before Go 1.17, where \<open>;\<close> still separates query
  pairs). Left out: IPv6 literals and zones in hosts, the validation of user
  information and of host characters. Bytes are compared by their code.
\<close>

definition byte :: "char \<Rightarrow> nat" where
  "byte ch = of_char ch"

definition is_alpha :: "char \<Rightarrow> bool" where
  "is_alpha ch = ((65 \<le> byte ch \<and> byte ch \<le> 90) \<or> (97 \<le> byte ch \<and> byte ch \<le> 122))"

definition is_digit :: "char \<Rightarrow> bool" where
  "is_digit ch = (48 \<le> byte ch \<and> byte ch \<le> 57)"

definition ishex :: "char \<Rightarrow> bool" where
  "ishex ch = (is_digit ch \<or> (97 \<le> byte ch \<and> byte ch \<le> 102) \<or> (65 \<le> byte ch \<and> byte ch \<le> 70))"

definition unhex :: "char \<Rightarrow> nat" where
  "unhex ch =
     (if is_digit ch then byte ch - 48
      else if 97 \<le> byte ch \<and> byte ch \<le> 102 then byte ch - 97 + 10
      else if 65 \<le> byte ch \<and> byte ch \<le> 70 then byte ch - 65 + 10
      else 0)"

definition hexdigit :: "nat \<Rightarrow> char" where
  "hexdigit n = ''0123456789ABCDEF'' ! n"

datatype encoding = encodePath | encodeHost | encodeUserPassword | encodeQueryComponent | encodeFragment

text \<open>\<^verbatim>\<open>shouldEscape(c, mode)\<close>.\<close>

definition shouldEscape :: "char \<Rightarrow> encoding \<Rightarrow> bool" where
  "shouldEscape ch mode =
     (if is_alpha ch \<or> is_digit ch then False
      else if mode = encodeHost \<and> ch \<in> set ''!$&'()*+,;=:[]<>\"'' then False
      else if ch \<in> set ''-_.~'' then False
      else if ch \<in> set ''$&+,/:;=?@'' \<and> mode = encodePath then ch = CHR ''?''
      else if ch \<in> set ''$&+,/:;=?@'' \<and> mode = encodeUserPassword then ch \<in> set ''@/?:''
      else if ch \<in> set ''$&+,/:;=?@'' \<and> mode = encodeQueryComponent then True
      else if ch \<in> set ''$&+,/:;=?@'' \<and> mode = encodeFragment then False
      else if mode = encodeFragment \<and> ch \<in> set ''!()*'' then False
      else True)"

text \<open>\<^verbatim>\<open>escape(s, mode)\<close>.\<close>

fun escape :: "string \<Rightarrow> encoding \<Rightarrow> string" where
  "escape [] mode = []"
| "escape (ch # s) mode =
     (if shouldEscape ch mode then
        (if ch = CHR '' '' \<and> mode = encodeQueryComponent then CHR ''+'' # escape s mode
         else CHR ''%'' # hexdigit (byte ch div 16) # hexdigit (byte ch mod 16) # escape s mode)
      else ch # escape s mode)"

text \<open>\<^verbatim>\<open>unescape(s, mode)\<close> for the modes other than host: \<open>None\<close> is the escape error.\<close>

fun unescape :: "string \<Rightarrow> encoding \<Rightarrow> string option" where
  "unescape [] mode = Some []"
| "unescape (ch # s) mode =
     (if ch = CHR ''%'' then
        (case s of
           a # b # s' \<Rightarrow>
             (if ishex a \<and> ishex b
              then map_option (\<lambda>t. char_of (unhex a * 16 + unhex b) # t) (unescape s' mode)
              else None)
         | _ \<Rightarrow> None)
      else if ch = CHR ''+'' \<and> mode = encodeQueryComponent
        then map_option (\<lambda>t. CHR '' '' # t) (unescape s mode)
      else map_option (\<lambda>t. ch # t) (unescape s mode))"

text \<open>\<^verbatim>\<open>split(s, sep, cutc)\<close> of net/url, for a one-byte separator.\<close>

definition url_split :: "string \<Rightarrow> char \<Rightarrow> bool \<Rightarrow> string \<times> string" where
  "url_split s sep cutc =
     (if sep \<in> set s
      then (takeWhile (\<lambda>ch. ch \<noteq> sep) s,
            (if cutc then tl (dropWhile (\<lambda>ch. ch \<noteq> sep) s) else dropWhile (\<lambda>ch. ch \<noteq> sep) s))
      else (s, []))"

text \<open>
  \<^verbatim>\<open>getscheme\<close>: \<open>seen\<close> holds the bytes already read, last first. \<open>None\<close> is the error
  "missing protocol scheme".
\<close>

fun getscheme_from :: "string \<Rightarrow> string \<Rightarrow> (string \<times> string) option" where
  "getscheme_from seen [] = Some ([], rev seen)"
| "getscheme_from seen (ch # s) =
     (if is_alpha ch then getscheme_from (ch # seen) s
      else if is_digit ch \<or> ch \<in> set ''+-.'' then
        (if seen = [] then Some ([], ch # s) else getscheme_from (ch # seen) s)
      else if ch = CHR '':'' then
        (if seen = [] then None else Some (rev seen, s))
      else Some ([], rev seen @ ch # s))"

definition getscheme :: "string \<Rightarrow> (string \<times> string) option" where
  "getscheme rawurl = getscheme_from [] rawurl"

definition stringContainsCTLByte :: "string \<Rightarrow> bool" where
  "stringContainsCTLByte s = list_ex (\<lambda>ch. byte ch < 32 \<or> byte ch = 127) s"

text \<open>\<^verbatim>\<open>validOptionalPort\<close> on the part of the host from its last colon.\<close>

definition validOptionalPort :: "string \<Rightarrow> bool" where
  "validOptionalPort port =
     (case port of [] \<Rightarrow> True | ch # ds \<Rightarrow> ch = CHR '':'' \<and> list_all is_digit ds)"

definition lastIndexFrom :: "char \<Rightarrow> string \<Rightarrow> string" where
  "lastIndexFrom sep s = rev (takeWhile (\<lambda>ch. ch \<noteq> sep) (rev s))"

definition parseHost :: "string \<Rightarrow> string option" where
  "parseHost host =
     (if CHR '':'' \<in> set host \<and> \<not> validOptionalPort (CHR '':'' # lastIndexFrom (CHR '':'') host)
      then None else Some host)"

definition parseAuthority :: "string \<Rightarrow> ((string \<times> string option) option \<times> string) option" where
  "parseAuthority authority =
     (if CHR ''@'' \<in> set authority then
        (let host = lastIndexFrom (CHR ''@'') authority;
             userinfo = take (length authority - length host - 1) authority
         in case parseHost host of
              None \<Rightarrow> None
            | Some h \<Rightarrow>
                (if CHR '':'' \<in> set userinfo
                 then (case (unescape (fst (url_split userinfo (CHR '':'') True)) encodeUserPassword,
                             unescape (snd (url_split userinfo (CHR '':'') True)) encodeUserPassword) of
                         (Some un, Some pw) \<Rightarrow> Some (Some (un, Some pw), h)
                       | _ \<Rightarrow> None)
                 else (case unescape userinfo encodeUserPassword of
                         Some un \<Rightarrow> Some (Some (un, None), h)
                       | None \<Rightarrow> None)))
      else map_option (\<lambda>h. (None, h)) (parseHost authority))"

text \<open>\<^verbatim>\<open>u.setPath(p)\<close>: \<open>RawPath\<close> is kept only where the default escaping differs.\<close>

definition setPath :: "URL \<Rightarrow> string \<Rightarrow> URL option" where
  "setPath u p =
     (case unescape p encodePath of
        None \<Rightarrow> None
      | Some path \<Rightarrow>
          Some (u\<lparr>Path := path, RawPath := (if p = escape path encodePath then [] else p)\<rparr>))"

definition emptyURL :: URL where
  "emptyURL = \<lparr>Scheme = [], Opaque = [], User = None, Host = [], Path = [], RawPath = [],
               ForceQuery = False, RawQuery = [], Fragment = []\<rparr>"

text \<open>\<^verbatim>\<open>parse(rawurl, false)\<close>, the part of \<^verbatim>\<open>url.Parse\<close> before the fragment.\<close>

definition parse_noreq :: "string \<Rightarrow> ext_error + URL" where
  "parse_noreq rawurl =
     (if stringContainsCTLByte rawurl then Inl ''net/url: invalid control character in URL''
      else if rawurl = ''*'' then Inr (emptyURL\<lparr>Path := ''*''\<rparr>)
      else
        (case getscheme rawurl of
           None \<Rightarrow> Inl ''missing protocol scheme''
         | Some (scheme, rest0) \<Rightarrow>
        (let u0 = emptyURL\<lparr>Scheme := ToLower scheme\<rparr>;
             force = (rest0 \<noteq> [] \<and> last rest0 = CHR ''?'' \<and> count_list rest0 (CHR ''?'') = 1);
             rest1 = (if force then butlast rest0 else fst (url_split rest0 (CHR ''?'') True));
             u1 = (if force then u0\<lparr>ForceQuery := True\<rparr>
                   else u0\<lparr>RawQuery := snd (url_split rest0 (CHR ''?'') True)\<rparr>)
         in
         if take 1 rest1 \<noteq> ''/'' \<and> Scheme u1 \<noteq> [] then Inr (u1\<lparr>Opaque := rest1\<rparr>)
         else if take 1 rest1 \<noteq> ''/'' \<and> CHR '':'' \<in> set (takeWhile (\<lambda>ch. ch \<noteq> CHR ''/'') rest1)
           then Inl ''first path segment in URL cannot contain colon''
         else if (Scheme u1 \<noteq> [] \<or> take 3 rest1 \<noteq> ''///'') \<and> take 2 rest1 = ''//'' then
           (case parseAuthority (fst (url_split (drop 2 rest1) (CHR ''/'') False)) of
              None \<Rightarrow> Inl ''invalid authority''
            | Some (user, host) \<Rightarrow>
                (case setPath (u1\<lparr>User := user, Host := host\<rparr>)
                        (snd (url_split (drop 2 rest1) (CHR ''/'') False)) of
                   None \<Rightarrow> Inl ''invalid URL escape''
                 | Some u2 \<Rightarrow> Inr u2))
         else
           (case setPath u1 rest1 of
              None \<Rightarrow> Inl ''invalid URL escape''
            | Some u2 \<Rightarrow> Inr u2))))"

text \<open>\<^verbatim>\<open>url.Parse\<close>.\<close>

definition go_Parse :: "string \<Rightarrow> ext_error + URL" where
  "go_Parse rawurl =
     (case parse_noreq (fst (url_split rawurl (CHR ''#'') True)) of
        Inl err \<Rightarrow> Inl err
      | Inr u \<Rightarrow>
          (if snd (url_split rawurl (CHR ''#'') True) = [] then Inr u
           else (case unescape (snd (url_split rawurl (CHR ''#'') True)) encodeFragment of
                   None \<Rightarrow> Inl ''invalid URL escape''
                 | Some frag \<Rightarrow> Inr (u\<lparr>Fragment := frag\<rparr>))))"

text \<open>\<^verbatim>\<open>u.EscapedPath()\<close> with its \<^verbatim>\<open>validEncodedPath\<close>.\<close>

definition validEncodedPath :: "string \<Rightarrow> bool" where
  "validEncodedPath s =
     list_all (\<lambda>ch. ch \<in> set ''!$&'()*+,;=:@[]%'' \<or> \<not> shouldEscape ch encodePath) s"

definition EscapedPath :: "URL \<Rightarrow> string" where
  "EscapedPath u =
     (if RawPath u \<noteq> [] \<and> validEncodedPath (RawPath u)
         \<and> unescape (RawPath u) encodePath = Some (Path u)
      then RawPath u
      else if Path u = ''*'' then ''*''
      else escape (Path u) encodePath)"

text \<open>\<^verbatim>\<open>strings.Split(s, "/")\<close> and \<^verbatim>\<open>strings.Join(xs, "/")\<close>.\<close>

fun Split_slash :: "string \<Rightarrow> string list" where
  "Split_slash [] = [[]]"
| "Split_slash (ch # s) =
     (if ch = CHR ''/'' then [] # Split_slash s
      else (case Split_slash s of
              [] \<Rightarrow> [[ch]]
            | x # xs \<Rightarrow> (ch # x) # xs))"

fun Join_slash :: "string list \<Rightarrow> string" where
  "Join_slash [] = []"
| "Join_slash [x] = x"
| "Join_slash (x # y # xs) = x @ CHR ''/'' # Join_slash (y # xs)"

text \<open>The loop of \<^verbatim>\<open>resolvePath\<close> over the path elements; \<open>dst\<close> grows at its end.\<close>

fun dot_segments :: "string list \<Rightarrow> string list \<Rightarrow> string list" where
  "dot_segments dst [] = dst"
| "dot_segments dst (elem # src) =
     (if elem = ''.'' then dot_segments dst src
      else if elem = ''..'' then dot_segments (butlast dst) src
      else dot_segments (dst @ [elem]) src)"

definition resolvePath :: "string \<Rightarrow> string \<Rightarrow> string" where
  "resolvePath base ref =
     (let full = (if ref = [] then base
                  else if hd ref \<noteq> CHR ''/''
                    then (if CHR ''/'' \<in> set base
                          then rev (dropWhile (\<lambda>ch. ch \<noteq> CHR ''/'') (rev base)) @ ref
                          else ref)
                  else ref)
      in if full = [] then []
         else
           (let src = Split_slash full;
                dst = dot_segments [] src;
                dst1 = (if last src = ''.'' \<or> last src = ''..'' then dst @ [[]] else dst);
                joined = Join_slash dst1
            in CHR ''/'' # (if take 1 joined = ''/'' then drop 1 joined else joined)))"

text \<open>\<^verbatim>\<open>u.ResolveReference(ref)\<close>; an error of \<^verbatim>\<open>setPath\<close> is ignored, as there.\<close>

definition go_ResolveReference :: "URL \<Rightarrow> URL \<Rightarrow> URL" where
  "go_ResolveReference u ref =
     (let url = (if Scheme ref = [] then ref\<lparr>Scheme := Scheme u\<rparr> else ref) in
      if Scheme ref \<noteq> [] \<or> Host ref \<noteq> [] \<or> User ref \<noteq> None then
        (case setPath url (resolvePath (EscapedPath ref) []) of
           None \<Rightarrow> url
         | Some url1 \<Rightarrow> url1)
      else if Opaque ref \<noteq> [] then url\<lparr>User := None, Host := [], Path := []\<rparr>
      else
        (let url1 = (if Path ref = [] \<and> RawQuery ref = []
                     then (let url0 = url\<lparr>RawQuery := RawQuery u\<rparr>
                           in if Fragment ref = [] then url0\<lparr>Fragment := Fragment u\<rparr> else url0)
                     else url);
             url2 = url1\<lparr>Host := Host u, User := User u\<rparr>
         in case setPath url2 (resolvePath (EscapedPath u) (EscapedPath ref)) of
              None \<Rightarrow> url2
            | Some url3 \<Rightarrow> url3))"

text \<open>\<^verbatim>\<open>u.String()\<close>.\<close>

definition Userinfo_String :: "string \<times> string option \<Rightarrow> string" where
  "Userinfo_String ui =
     (case snd ui of
        None \<Rightarrow> escape (fst ui) encodeUserPassword
      | Some pw \<Rightarrow> escape (fst ui) encodeUserPassword @ '':'' @ escape pw encodeUserPassword)"

definition go_String :: "URL \<Rightarrow> string" where
  "go_String u =
     (let buf0 = (if Scheme u \<noteq> [] then Scheme u @ '':'' else []);
          buf1 =
            (if Opaque u \<noteq> [] then buf0 @ Opaque u
             else
               (let b1 = (if Scheme u \<noteq> [] \<or> Host u \<noteq> [] \<or> User u \<noteq> None
                          then buf0
                               @ (if Host u \<noteq> [] \<or> Path u \<noteq> [] \<or> User u \<noteq> None then ''//'' else [])
                               @ (case User u of None \<Rightarrow> [] | Some ui \<Rightarrow> Userinfo_String ui @ ''@'')
                               @ (if Host u \<noteq> [] then escape (Host u) encodeHost else [])
                          else buf0);
                    path = EscapedPath u;
                    b2 = (if path \<noteq> [] \<and> hd path \<noteq> CHR ''/'' \<and> Host u \<noteq> [] then b1 @ ''/'' else b1);
                    b3 = (if b2 = [] \<and> CHR '':'' \<in> set (takeWhile (\<lambda>ch. ch \<noteq> CHR ''/'') path)
                          then b2 @ ''./'' else b2)
                in b3 @ path));
          buf2 = (if ForceQuery u \<or> RawQuery u \<noteq> [] then buf1 @ ''?'' @ RawQuery u else buf1)
      in if Fragment u \<noteq> [] then buf2 @ ''#'' @ escape (Fragment u) encodeFragment else buf2)"

text \<open>
  \<^verbatim>\<open>u.Query()\<close>: \<^verbatim>\<open>ParseQuery(u.RawQuery)\<close> with its error dropped. A pair whose key or
  value does not unescape is skipped.
\<close>

fun Split_pairs :: "string \<Rightarrow> string list" where
  "Split_pairs [] = [[]]"
| "Split_pairs (ch # s) =
     (if ch = CHR ''&'' \<or> ch = CHR '';'' then [] # Split_pairs s
      else (case Split_pairs s of
              [] \<Rightarrow> [[ch]]
            | x # xs \<Rightarrow> (ch # x) # xs))"

fun Values_add :: "Values \<Rightarrow> string \<Rightarrow> string \<Rightarrow> Values" where
  "Values_add [] k v = [(k, [v])]"
| "Values_add ((k', vs) # m) k v =
     (if k' = k then (k', vs @ [v]) # m else (k', vs) # Values_add m k v)"

fun parseQuery :: "Values \<Rightarrow> string list \<Rightarrow> Values" where
  "parseQuery m [] = m"
| "parseQuery m (key # rest) =
     (if key = [] then parseQuery m rest
      else
        (case (unescape (fst (url_split key (CHR ''='') True)) encodeQueryComponent,
               unescape (snd (url_split key (CHR ''='') True)) encodeQueryComponent) of
           (Some k, Some v) \<Rightarrow> parseQuery (Values_add m k v) rest
         | _ \<Rightarrow> parseQuery m rest))"

definition go_Query :: "URL \<Rightarrow> Values" where
  "go_Query u = parseQuery [] (Split_pairs (RawQuery u))"

text \<open>\<^verbatim>\<open>v.Encode()\<close>: the keys sorted bytewise, each value as \<open>key=value\<close>, joined by \<open>&\<close>.\<close>

fun string_le :: "string \<Rightarrow> string \<Rightarrow> bool" where
  "string_le [] t = True"
| "string_le (a # s) [] = False"
| "string_le (a # s) (b # t) = (byte a < byte b \<or> (a = b \<and> string_le s t))"

fun insert_key :: "string \<times> string list \<Rightarrow> Values \<Rightarrow> Values" where
  "insert_key kv [] = [kv]"
| "insert_key kv (kv' # m) =
     (if string_le (fst kv) (fst kv') then kv # kv' # m else kv' # insert_key kv m)"

definition sort_keys :: "Values \<Rightarrow> Values" where
  "sort_keys m = foldr insert_key m []"

fun Join_amp :: "string list \<Rightarrow> string" where
  "Join_amp [] = []"
| "Join_amp [x] = x"
| "Join_amp (x # y # xs) = x @ CHR ''&'' # Join_amp (y # xs)"

definition go_Encode :: "Values \<Rightarrow> string" where
  "go_Encode m =
     Join_amp (concat (map (\<lambda>kv. map (\<lambda>v. escape (fst kv) encodeQueryComponent @ ''=''
                                              @ escape v encodeQueryComponent) (snd kv))
                           (sort_keys m)))"

subsection \<open>The example installation\<close>

text \<open>
  Two repositories. \<open>stable\<close> serves its charts below a base URL that carries a query
  parameter and lists relative URLs; \<open>mirror\<close> lists absolute ones. Both are
  configured with credentials.
\<close>

definition stable_entry :: Entry where
  "stable_entry = \<lparr>Name = ''stable'', Cache = ''stable-index.yaml'',
                    URL = ''https://example.com/repo?token=x'',
                    Username = ''stable-user'', Password = ''stable-pass'',
                    CertFile = [], KeyFile = [], CAFile = []\<rparr>"

definition mirror_entry :: Entry where
  "mirror_entry = \<lparr>Name = ''mirror'', Cache = ''mirror-index.yaml'',
                    URL = ''https://charts.example.org'',
                    Username = ''mirror-user'', Password = ''mirror-pass'',
                    CertFile = [], KeyFile = [], CAFile = []\<rparr>"

definition example_registry :: File where
  "example_registry = \<lparr>Repositories = [stable_entry, mirror_entry]\<rparr>"

definition stable_index :: IndexFile where
  "stable_index =
     \<lparr>Entries =
        [(''foo'', [\<lparr>Version = ''1.2.3'',
                     URLs = [''charts/foo-1.2.3.tgz'', ''https://charts.example.org/foo-1.2.3.tgz''],
                     Digest = []\<rparr>,
                    \<lparr>Version = ''1.0.0'', URLs = [''charts/foo-1.0.0.tgz?a=b''], Digest = []\<rparr>]),
         (''empty'', [\<lparr>Version = ''0.1.0'', URLs = [], Digest = []\<rparr>])]\<rparr>"

definition mirror_index :: IndexFile where
  "mirror_index =
     \<lparr>Entries =
        [(''bar'', [\<lparr>Version = ''0.1.0'',
                     URLs = [''https://charts.example.org/bar-0.1.0.tgz''],
                     Digest = []\<rparr>]),
         (''foo'', [\<lparr>Version = ''1.2.3'',
                     URLs = [''https://charts.example.org/foo-1.2.3.tgz''],
                     Digest = []\<rparr>])]\<rparr>"

text \<open>
  Modelled from the spec: the index query \<^verbatim>\<open>IndexFile.Get\<close>, which is not among the
  sources. With no constraint it selects the greatest version, which an index lists
  first; with a constraint, the version that matches it exactly.
\<close>

definition example_Get :: "IndexFile \<Rightarrow> string \<Rightarrow> string \<Rightarrow> ext_error + ChartVersion" where
  "example_Get i name version =
     (case map_of (Entries i) name of
        None \<Rightarrow> Inl ''no chart name found''
      | Some vs \<Rightarrow>
          (case filter (\<lambda>cv. version = [] \<or> Version cv = version) vs of
             [] \<Rightarrow> Inl ''no chart version found''
           | cv # _ \<Rightarrow> Inr cv))"

text \<open>
  The example environment: the URL model above, verbatim comparison for
  \<^verbatim>\<open>urlutil.Equal\<close> (a normalised comparison holds of equal strings), constructors
  that build transports without credentials, a network that serves every archive and
  no provenance file, and a disk that takes every write.
\<close>

definition example_env :: env where
  "example_env =
     \<lparr>url_Parse = go_Parse,
      url_String = go_String,
      url_Query = go_Query,
      Values_Encode = go_Encode,
      ResolveReference = go_ResolveReference,
      urlutil_Equal = (\<lambda>a b. a = b),
      LoadFile = Inr example_registry,
      LoadIndexFile = (\<lambda>name. if name = ''stable'' then Inr stable_index
                               else if name = ''mirror'' then Inr mirror_index
                               else Inl ''no such file''),
      IndexFile_Get = example_Get,
      NewHTTPGetter = (\<lambda>url. Inr \<lparr>client = 0, username = [], password = []\<rparr>),
      NewChartRepository = (\<lambda>rc. Inr \<lparr>Config = Some rc, Client = Some (Provided 1)\<rparr>),
      HTTPGetter_Get = (\<lambda>g url. Inr ''archive''),
      Provided_Get = (\<lambda>n url. Inl ''404 Not Found''),
      filepath_Base = lastIndexFrom (CHR ''/''),
      filepath_Join = (\<lambda>dir name. dir @ ''/'' @ name),
      WriteFile_fails = (\<lambda>path. None),
      NewFromKeyring = (\<lambda>keyring. Inr 0),
      Signatory_Verify = (\<lambda>sig files path provfile. (None, Some ''openpgp: invalid signature''))\<rparr>"

text \<open>A downloader without credentials of its own, and one with both.\<close>

definition plain_downloader :: ChartDownloader where
  "plain_downloader = \<lparr>Verify = VerifyNever, Keyring = [], Username = [], Password = []\<rparr>"

definition caller_downloader :: ChartDownloader where
  "caller_downloader =
     \<lparr>Verify = VerifyNever, Keyring = [], Username = ''caller'', Password = ''secret''\<rparr>"

subsection \<open>Observations\<close>

text \<open>The spec's reading of an index: some version of some chart lists a URL equal to \<open>u\<close>.\<close>

definition index_lists :: "env \<Rightarrow> string \<Rightarrow> IndexFile \<Rightarrow> bool" where
  "index_lists e u i =
     (\<exists>entry \<in> set (Entries i). \<exists>ver \<in> set (snd entry). \<exists>dl \<in> set (URLs ver). urlutil_Equal e u dl)"

text \<open>A repository the scan passes over: it loads, and its index does not list the URL.\<close>

definition passed_over :: "env \<Rightarrow> string \<Rightarrow> Entry \<Rightarrow> bool" where
  "passed_over e u rc =
     (case NewChartRepository e rc of
        Inl _ \<Rightarrow> False
      | Inr r \<Rightarrow>
          (case Config r of
             None \<Rightarrow> False
           | Some cfg \<Rightarrow>
               (case LoadIndexFile e (Name cfg) of
                  Inl _ \<Rightarrow> False
                | Inr i \<Rightarrow> \<not> index_lists e u i)))"

text \<open>What a call did, read off its events.\<close>

fun is_provenance_fetch :: "event \<Rightarrow> bool" where
  "is_provenance_fetch (EvClientGet cl url) = True"
| "is_provenance_fetch ev = False"

fun is_verification :: "event \<Rightarrow> bool" where
  "is_verification (EvVerifyChart path keyring) = True"
| "is_verification ev = False"

fun is_warning :: "event \<Rightarrow> bool" where
  "is_warning (EvWarning ref err) = True"
| "is_warning ev = False"

text \<open>An index whose matched entries are cut down to their first candidate URL.\<close>

definition first_candidate_only :: "env \<Rightarrow> env" where
  "first_candidate_only e =
     e\<lparr>IndexFile_Get :=
         (\<lambda>i name version.
            case IndexFile_Get e i name version of
              Inl err \<Rightarrow> Inl err
            | Inr cv \<Rightarrow> Inr (cv\<lparr>URLs := take 1 (URLs cv)\<rparr>))\<rparr>"

text \<open>
  A shorthand reference whose lookup matches a version entry: the reference parses to
  \<open>u\<close> and is not an absolute URL, the transport \<open>g\<close> is built for it, its first
  segment names the registry entry \<open>rc\<close>, loaded as \<open>r\<close>, and the index of that
  repository answers the query for the second segment with the entry \<open>cv\<close>.
\<close>

definition shorthand_match ::
  "env \<Rightarrow> string \<Rightarrow> string \<Rightarrow> URL \<Rightarrow> HTTPGetter \<Rightarrow> Entry \<Rightarrow> ChartRepository \<Rightarrow> ChartVersion \<Rightarrow> bool" where
  "shorthand_match e ref version u g rc r cv =
     (url_Parse e ref = Inr u \<and> \<not> (IsAbs u \<and> length (Host u) > 0 \<and> length (Path u) > 0)
      \<and> NewHTTPGetter e ref = Inr g
      \<and> (case LoadFile e of
            Inl _ \<Rightarrow> False
          | Inr rf \<Rightarrow>
              (case SplitN2 (Path u) of
                 [repoName, chartName] \<Rightarrow>
                   pickChartRepositoryConfigByName repoName (Repositories rf) = Inr rc
                   \<and> NewChartRepository e rc = Inr r
                   \<and> (case Config r of
                         None \<Rightarrow> False
                       | Some cfg \<Rightarrow>
                           (case LoadIndexFile e (Name cfg) of
                              Inl _ \<Rightarrow> False
                            | Inr i \<Rightarrow> IndexFile_Get e i chartName version = Inr cv))
               | _ \<Rightarrow> False)))"

text \<open>Variants of the example: a network that serves the provenance file, and a
  cache in which the index of \<open>mirror\<close> cannot be read.\<close>

definition serving_env :: env where
  "serving_env = example_env\<lparr>Provided_Get := (\<lambda>n url. Inr ''signature'')\<rparr>"

definition unreadable_env :: env where
  "unreadable_env =
     example_env\<lparr>LoadIndexFile := (\<lambda>name. if name = ''stable'' then Inr stable_index
                                          else Inl ''yaml: line 1: did not find expected key'')\<rparr>"

text \<open>A downloader that verifies if it can.\<close>

definition checking_downloader :: ChartDownloader where
  "checking_downloader =
     \<lparr>Verify = VerifyIfPossible, Keyring = ''pubring.gpg'', Username = [], Password = []\<rparr>"

text \<open>What \<open>stable/foo\<close> at version 1.2.3 resolves to in the example.\<close>

definition resolved_foo :: URL where
  "resolved_foo = emptyURL\<lparr>Scheme := ''https'', Host := ''example.com'',
                           Path := ''/repo/charts/foo-1.2.3.tgz'', RawQuery := ''token=x''\<rparr>"

definition stable_repository :: ChartRepository where
  "stable_repository = \<lparr>Config = Some stable_entry, Client = Some (Provided 1)\<rparr>"

definition stable_getter :: HTTPGetter where
  "stable_getter = \<lparr>client = 0, username = ''stable-user'', password = ''stable-pass''\<rparr>"

text \<open>The parts of a resolution and of a download.\<close>

definition resolved_URL :: "resolved option \<Rightarrow> URL option" where
  "resolved_URL x = (case x of None \<Rightarrow> None | Some (u, r, g, err) \<Rightarrow> u)"

definition resolved_error :: "resolved option \<Rightarrow> error option" where
  "resolved_error x = (case x of None \<Rightarrow> None | Some (u, r, g, err) \<Rightarrow> err)"

definition returned :: "downloaded option \<times> fs \<times> event list \<Rightarrow> downloaded option" where
  "returned D = fst D"

definition files_after :: "downloaded option \<times> fs \<times> event list \<Rightarrow> fs" where
  "files_after D = fst (snd D)"

definition events_of :: "downloaded option \<times> fs \<times> event list \<Rightarrow> event list" where
  "events_of D = snd (snd D)"

text \<open>The call returned a non-nil error.\<close>

definition failed :: "downloaded option \<times> fs \<times> event list \<Rightarrow> bool" where
  "failed D = (case fst D of Some (path, ver, Some err) \<Rightarrow> True | _ \<Rightarrow> False)"

section \<open>Properties\<close>

subsection \<open>Auxiliary facts\<close>

lemma urls_match_iff: "urls_match e u dls = (\<exists>dl \<in> set dls. urlutil_Equal e u dl)"
  by (induction dls) auto

lemma versions_match_iff:
  "versions_match e u vers = (\<exists>ver \<in> set vers. \<exists>dl \<in> set (URLs ver). urlutil_Equal e u dl)"
  by (induction vers) (auto simp: urls_match_iff)

lemma entries_match_list:
  "entries_match e u es =
     (\<exists>entry \<in> set es. \<exists>ver \<in> set (snd entry). \<exists>dl \<in> set (URLs ver). urlutil_Equal e u dl)"
  by (induction es) (auto simp: versions_match_iff)

lemma entries_match_iff: "entries_match e u (Entries i) = index_lists e u i"
  by (simp add: index_lists_def entries_match_list)

lemma scanRepos_passed_over:
  "list_all (passed_over e u) pre \<Longrightarrow> scanRepos e u (pre @ rest) = scanRepos e u rest"
proof (induction pre)
  case Nil
  then show ?case by simp
next
  case (Cons rc pre)
  from Cons.prems have rc: "passed_over e u rc" and "list_all (passed_over e u) pre" by simp_all
  then have ih: "scanRepos e u (pre @ rest) = scanRepos e u rest" using Cons.IH by simp
  from rc show ?case
    by (auto simp: ih passed_over_def entries_match_iff split: sum.splits option.splits)
qed

lemma shorthand_matchD:
  assumes m: "shorthand_match e ref version u g rc r cv"
  obtains rf repoName chartName cfg i where
    "url_Parse e ref = Inr u" "\<not> (IsAbs u \<and> length (Host u) > 0 \<and> length (Path u) > 0)"
    "NewHTTPGetter e ref = Inr g" "LoadFile e = Inr rf" "SplitN2 (Path u) = [repoName, chartName]"
    "pickChartRepositoryConfigByName repoName (Repositories rf) = Inr rc"
    "NewChartRepository e rc = Inr r" "Config r = Some cfg" "LoadIndexFile e (Name cfg) = Inr i"
    "IndexFile_Get e i chartName version = Inr cv"
proof -
  from m have p: "url_Parse e ref = Inr u"
    and na: "\<not> (IsAbs u \<and> length (Host u) > 0 \<and> length (Path u) > 0)"
    and g: "NewHTTPGetter e ref = Inr g"
    unfolding shorthand_match_def by blast+
  from m obtain rf where rf: "LoadFile e = Inr rf"
    unfolding shorthand_match_def by (cases "LoadFile e") auto
  from m rf obtain repoName chartName where sp: "SplitN2 (Path u) = [repoName, chartName]"
    unfolding shorthand_match_def by (auto split: list.splits)
  from m rf sp have pk: "pickChartRepositoryConfigByName repoName (Repositories rf) = Inr rc"
    and r: "NewChartRepository e rc = Inr r"
    unfolding shorthand_match_def by simp_all
  from m rf sp obtain cfg where cfg: "Config r = Some cfg"
    unfolding shorthand_match_def by (cases "Config r") auto
  from m rf sp cfg obtain i where i: "LoadIndexFile e (Name cfg) = Inr i"
    unfolding shorthand_match_def by (cases "LoadIndexFile e (Name cfg)") auto
  from m rf sp cfg i have "IndexFile_Get e i chartName version = Inr cv"
    unfolding shorthand_match_def by simp
  with p na g rf sp pk r cfg i show thesis by (rule that)
qed

lemma resolve_no_urls:
  assumes "shorthand_match e ref version u g rc r cv" and "URLs cv = []"
  shows "ResolveChartVersionAndGetRepo e c ref version =
           Some (Some u, Some r, Some (SetCredentials g (getRepoCredentials c (Some r))),
                 Some (NoDownloadableURLs ref))"
proof -
  from assms(1) obtain rf repoName chartName cfg i where
    "url_Parse e ref = Inr u" "\<not> (IsAbs u \<and> length (Host u) > 0 \<and> length (Path u) > 0)"
    "NewHTTPGetter e ref = Inr g" "LoadFile e = Inr rf" "SplitN2 (Path u) = [repoName, chartName]"
    "pickChartRepositoryConfigByName repoName (Repositories rf) = Inr rc"
    "NewChartRepository e rc = Inr r" "Config r = Some cfg" "LoadIndexFile e (Name cfg) = Inr i"
    "IndexFile_Get e i chartName version = Inr cv"
    by (rule shorthand_matchD)
  then show ?thesis
    using assms(2) by (auto simp: ResolveChartVersionAndGetRepo_def Let_def)
qed

lemma resolve_relative:
  assumes "shorthand_match e ref version u g rc r cv" and "URLs cv = first # others"
    and "url_Parse e first = Inr u1" and "\<not> IsAbs u1"
    and "url_Parse e (URL rc) = Inr repoURL" and "NewHTTPGetter e (URL rc) = Inr g2"
  shows "ResolveChartVersionAndGetRepo e c ref version =
           Some (Some ((ResolveReference e (repoURL\<lparr>Path := TrimSuffix_slash (Path repoURL) @ ''/''\<rparr>) u1)
                         \<lparr>RawQuery := Values_Encode e (url_Query e repoURL)\<rparr>),
                 Some r, Some (SetCredentials g2 (getRepoCredentials c (Some r))), None)"
proof -
  from assms(1) obtain rf repoName chartName cfg i where
    "url_Parse e ref = Inr u" "\<not> (IsAbs u \<and> length (Host u) > 0 \<and> length (Path u) > 0)"
    "NewHTTPGetter e ref = Inr g" "LoadFile e = Inr rf" "SplitN2 (Path u) = [repoName, chartName]"
    "pickChartRepositoryConfigByName repoName (Repositories rf) = Inr rc"
    "NewChartRepository e rc = Inr r" "Config r = Some cfg" "LoadIndexFile e (Name cfg) = Inr i"
    "IndexFile_Get e i chartName version = Inr cv"
    by (rule shorthand_matchD)
  then show ?thesis
    using assms(2-) by (auto simp: ResolveChartVersionAndGetRepo_def Let_def)
qed

lemma resolve_relative_cases:
  assumes "shorthand_match e ref version u g rc r cv" and "URLs cv = first # others"
    and "url_Parse e first = Inr u1" and "\<not> IsAbs u1"
  shows "ResolveChartVersionAndGetRepo e c ref version =
     (case url_Parse e (URL rc) of
        Inl err \<Rightarrow> Some (None, Some r, None, Some (External err))
      | Inr repoURL \<Rightarrow>
          (case NewHTTPGetter e (URL rc) of
             Inl err \<Rightarrow>
               Some (Some (repoURL\<lparr>Path := TrimSuffix_slash (Path repoURL) @ ''/''\<rparr>), Some r, None,
                     Some (External err))
           | Inr g2 \<Rightarrow>
               Some (Some ((ResolveReference e
                              (repoURL\<lparr>Path := TrimSuffix_slash (Path repoURL) @ ''/''\<rparr>) u1)
                             \<lparr>RawQuery := Values_Encode e (url_Query e repoURL)\<rparr>),
                     Some r, Some (SetCredentials g2 (getRepoCredentials c (Some r))), None)))"
proof -
  from assms(1) obtain rf repoName chartName cfg i where
    "url_Parse e ref = Inr u" "\<not> (IsAbs u \<and> length (Host u) > 0 \<and> length (Path u) > 0)"
    "NewHTTPGetter e ref = Inr g" "LoadFile e = Inr rf" "SplitN2 (Path u) = [repoName, chartName]"
    "pickChartRepositoryConfigByName repoName (Repositories rf) = Inr rc"
    "NewChartRepository e rc = Inr r" "Config r = Some cfg" "LoadIndexFile e (Name cfg) = Inr i"
    "IndexFile_Get e i chartName version = Inr cv"
    by (rule shorthand_matchD)
  then show ?thesis
    using assms(2-)
    by (auto simp: ResolveChartVersionAndGetRepo_def Let_def split: sum.split)
qed

lemma resolve_relative_success:
  assumes "shorthand_match e ref version u g rc r cv" and "URLs cv = first # others"
    and "url_Parse e first = Inr u1" and "\<not> IsAbs u1"
    and "resolved_error (ResolveChartVersionAndGetRepo e c ref version) = None"
  shows "\<exists>repoURL g2. url_Parse e (URL rc) = Inr repoURL \<and> NewHTTPGetter e (URL rc) = Inr g2"
  using assms(5) unfolding resolve_relative_cases [OF assms(1-4)]
  by (cases "url_Parse e (URL rc)"; cases "NewHTTPGetter e (URL rc)")
     (simp_all add: resolved_error_def)

lemma resolve_absolute_candidate:
  assumes "shorthand_match e ref version u g rc r cv" and "URLs cv = first # others"
    and "url_Parse e first = Inr u1" and "IsAbs u1"
  shows "ResolveChartVersionAndGetRepo e c ref version =
           Some (Some u1, Some r, Some (SetCredentials g (getRepoCredentials c (Some r))), None)"
proof -
  from assms(1) obtain rf repoName chartName cfg i where
    "url_Parse e ref = Inr u" "\<not> (IsAbs u \<and> length (Host u) > 0 \<and> length (Path u) > 0)"
    "NewHTTPGetter e ref = Inr g" "LoadFile e = Inr rf" "SplitN2 (Path u) = [repoName, chartName]"
    "pickChartRepositoryConfigByName repoName (Repositories rf) = Inr rc"
    "NewChartRepository e rc = Inr r" "Config r = Some cfg" "LoadIndexFile e (Name cfg) = Inr i"
    "IndexFile_Get e i chartName version = Inr cv"
    by (rule shorthand_matchD)
  then show ?thesis
    using assms(2-) by (auto simp: ResolveChartVersionAndGetRepo_def Let_def)
qed

lemma scanRepos_first_candidate_only:
  "scanRepos (first_candidate_only e) u rcs = scanRepos e u rcs"
proof -
  have a: "\<And>dls. urls_match (first_candidate_only e) u dls = urls_match e u dls"
    subgoal for dls by (induction dls) (simp_all add: first_candidate_only_def) done
  have b: "\<And>vers. versions_match (first_candidate_only e) u vers = versions_match e u vers"
    subgoal for vers by (induction vers) (simp_all add: a) done
  have c: "\<And>es. entries_match (first_candidate_only e) u es = entries_match e u es"
    subgoal for es by (induction es) (simp_all add: b) done
  have d: "NewChartRepository (first_candidate_only e) = NewChartRepository e"
    "LoadIndexFile (first_candidate_only e) = LoadIndexFile e"
    by (simp_all add: first_candidate_only_def)
  show ?thesis
    by (induction rcs) (simp_all add: c d split: sum.split option.split)
qed

lemma resolve_first_candidate_only:
  "ResolveChartVersionAndGetRepo (first_candidate_only e) c ref version =
   ResolveChartVersionAndGetRepo e c ref version"
proof -
  have s: "scanReposForURL (first_candidate_only e) ref rf = scanReposForURL e ref rf" for rf
    by (simp add: scanReposForURL_def scanRepos_first_candidate_only)
  show ?thesis
    unfolding ResolveChartVersionAndGetRepo_def s
    by (simp add: first_candidate_only_def Let_def split: sum.split list.split option.split)
qed

text \<open>The two outcomes of the scan for an absolute reference, for every environment.\<close>

lemma resolve_no_owner:
  assumes "url_Parse e ref = Inr u" and "IsAbs u" and "length (Host u) > 0" and "length (Path u) > 0"
    and "LoadFile e = Inr rf" and "NewHTTPGetter e ref = Inr g"
    and "scanReposForURL e ref rf = Some (Inl ErrNoOwnerRepo)"
  shows "ResolveChartVersionAndGetRepo e c ref version =
           Some (Some u,
                 Some \<lparr>Config = None,
                        Client = Some (HTTP (SetCredentials g
                                   (ChartDownloader.Username c, ChartDownloader.Password c)))\<rparr>,
                 Some (SetCredentials g (ChartDownloader.Username c, ChartDownloader.Password c)),
                 Some ErrNoOwnerRepo)"
  using assms
  by (simp add: ResolveChartVersionAndGetRepo_def getRepoCredentials_def Let_def)

lemma download_no_owner:
  assumes "url_Parse e ref = Inr u" and "IsAbs u" and "length (Host u) > 0" and "length (Path u) > 0"
    and "LoadFile e = Inr rf" and "NewHTTPGetter e ref = Inr g"
    and "scanReposForURL e ref rf = Some (Inl ErrNoOwnerRepo)"
  shows "DownloadTo e c ref version dest files = (Some ([], None, Some ErrNoOwnerRepo), files, [])"
  by (simp add: DownloadTo_def resolve_no_owner [OF assms])

lemma resolve_owner_found:
  assumes "url_Parse e ref = Inr u" and "IsAbs u" and "length (Host u) > 0" and "length (Path u) > 0"
    and "LoadFile e = Inr rf" and "NewHTTPGetter e ref = Inr g"
    and "scanReposForURL e ref rf = Some (Inr rc)" and "NewChartRepository e rc = Inr r"
  shows "ResolveChartVersionAndGetRepo e c ref version = Some (Some u, Some r, Some g, None)"
  using assms
  by (simp add: ResolveChartVersionAndGetRepo_def)

lemma never_fetches_no_provenance:
  "Verify c = VerifyNever \<Longrightarrow>
   \<not> list_ex is_provenance_fetch (events_of (DownloadTo e c ref version dest files))"
  by (simp add: DownloadTo_def events_of_def Let_def
           split: option.split sum.split prod.split)

lemma verification_only_when_asked:
  "Verify c = VerifyNever \<or> Verify c = VerifyLater \<Longrightarrow>
   \<not> list_ex is_verification (events_of (DownloadTo e c ref version dest files))"
  by (auto simp: DownloadTo_def events_of_def Let_def
           split: option.split sum.split prod.split)

lemma download_after_write:
  assumes "ResolveChartVersionAndGetRepo e c ref version = Some (Some u, Some r, Some g, None)"
    and "Client r = Some cl"
    and "HTTPGetter_Get e g (url_String e u) = Inr data"
    and "WriteFile_fails e (filepath_Join e dest (filepath_Base e (Path u))) = None"
  shows "DownloadTo e c ref version dest files =
     (let destfile = filepath_Join e dest (filepath_Base e (Path u));
          files1 = files(destfile \<mapsto> RegularFile data);
          ev2 = [EvGet g (url_String e u), EvWriteFile destfile data];
          provurl = url_String e u @ ''.prov'';
          ev3 = ev2 @ [EvClientGet cl provurl]
      in if Verify c = VerifyNever then (Some (destfile, Some emptyVerification, None), files1, ev2)
         else
           (case Getter_Get e cl provurl of
              Inl err \<Rightarrow>
                (if Verify c = VerifyAlways
                 then (Some (destfile, Some emptyVerification, Some (FailedToFetchProvenance provurl)),
                       files1, ev3)
                 else (Some (destfile, Some emptyVerification, None), files1, ev3 @ [EvWarning ref err]))
            | Inr body \<Rightarrow>
                (let provfile = destfile @ ''.prov'';
                     ev4 = ev3 @ [EvWriteFile provfile body]
                 in case WriteFile e files1 provfile body of
                      Inl err \<Rightarrow> (Some (destfile, None, Some (External err)), files1, ev4)
                    | Inr files2 \<Rightarrow>
                        (if Verify c = VerifyLater
                         then (Some (destfile, Some emptyVerification, None), files2, ev4)
                         else (Some (destfile, fst (VerifyChart e files2 destfile (Keyring c)),
                                     snd (VerifyChart e files2 destfile (Keyring c))),
                               files2, ev4 @ [EvVerifyChart destfile (Keyring c)])))))"
  using assms
  by (cases "Verify c")
     (simp_all add: DownloadTo_def WriteFile_def Let_def split: sum.split option.split prod.split)

lemma match_stable_foo:
  "shorthand_match example_env ''stable/foo'' ''1.2.3'' (emptyURL\<lparr>Path := ''stable/foo''\<rparr>)
     \<lparr>client = 0, username = [], password = []\<rparr> stable_entry stable_repository
     \<lparr>Version = ''1.2.3'',
      URLs = [''charts/foo-1.2.3.tgz'', ''https://charts.example.org/foo-1.2.3.tgz''],
      Digest = []\<rparr>"
  by code_simp

lemma urls_stable_foo:
  "URLs \<lparr>Version = ''1.2.3'',
          URLs = [''charts/foo-1.2.3.tgz'', ''https://charts.example.org/foo-1.2.3.tgz''],
          Digest = []\<rparr>
     = ''charts/foo-1.2.3.tgz'' # [''https://charts.example.org/foo-1.2.3.tgz'']"
  by simp

lemma parse_candidate:
  "url_Parse example_env ''charts/foo-1.2.3.tgz'' = Inr (emptyURL\<lparr>Path := ''charts/foo-1.2.3.tgz''\<rparr>)"
  by code_simp

lemma candidate_relative: "\<not> IsAbs (emptyURL\<lparr>Path := ''charts/foo-1.2.3.tgz''\<rparr>)"
  by code_simp

lemma match_stable_foo_old:
  "shorthand_match example_env ''stable/foo'' ''1.0.0'' (emptyURL\<lparr>Path := ''stable/foo''\<rparr>)
     \<lparr>client = 0, username = [], password = []\<rparr> stable_entry
     \<lparr>Config = Some stable_entry, Client = Some (Provided 1)\<rparr>
     \<lparr>Version = ''1.0.0'', URLs = [''charts/foo-1.0.0.tgz?a=b''], Digest = []\<rparr>"
  by code_simp

lemma parse_candidate_with_query:
  "url_Parse example_env ''charts/foo-1.0.0.tgz?a=b'' =
     Inr (emptyURL\<lparr>Path := ''charts/foo-1.0.0.tgz'', RawQuery := ''a=b''\<rparr>)"
  by code_simp

lemma parse_stable_url:
  "url_Parse example_env (URL stable_entry) =
     Inr (emptyURL\<lparr>Scheme := ''https'', Host := ''example.com'', Path := ''/repo'',
                   RawQuery := ''token=x''\<rparr>)"
  by code_simp

lemma getter_stable_url:
  "NewHTTPGetter example_env (URL stable_entry) = Inr \<lparr>client = 0, username = [], password = []\<rparr>"
  by (simp add: example_env_def)

lemma match_stable_empty:
  "shorthand_match example_env ''stable/empty'' [] (emptyURL\<lparr>Path := ''stable/empty''\<rparr>)
     \<lparr>client = 0, username = [], password = []\<rparr> stable_entry
     \<lparr>Config = Some stable_entry, Client = Some (Provided 1)\<rparr>
     \<lparr>Version = ''0.1.0'', URLs = [], Digest = []\<rparr>"
  by code_simp

lemma parse_bar:
  "url_Parse example_env ''https://charts.example.org/bar-0.1.0.tgz'' =
     Inr (emptyURL\<lparr>Scheme := ''https'', Host := ''charts.example.org'', Path := ''/bar-0.1.0.tgz''\<rparr>)"
  by code_simp


subsection \<open>The claims\<close>

text \<open>
  Claim C1. An absolute URL that no index lists is to resolve without a fatal error, to
  a transport built from the reference alone and no owning repository, so that
  \<open>DownloadTo\<close> goes on to fetch the archive. The code builds that transport but
  returns it together with \<open>ErrNoOwnerRepo\<close>, and \<open>DownloadTo\<close> returns on that error
  before any fetch (\<open>resolve_no_owner\<close> and \<open>download_no_owner\<close> above, for every
  environment): evaluated here for a URL that neither example index lists.
\<close>

theorem no_owner_download_fails:
  "ResolveChartVersionAndGetRepo example_env caller_downloader
       ''https://example.net/charts/baz-0.0.1.tgz'' [] =
     Some (Some (emptyURL\<lparr>Scheme := ''https'', Host := ''example.net'',
                           Path := ''/charts/baz-0.0.1.tgz''\<rparr>),
           Some \<lparr>Config = None,
                  Client = Some (HTTP \<lparr>client = 0, username = ''caller'', password = ''secret''\<rparr>)\<rparr>,
           Some \<lparr>client = 0, username = ''caller'', password = ''secret''\<rparr>,
           Some ErrNoOwnerRepo)
   \<and> returned (DownloadTo example_env caller_downloader
                  ''https://example.net/charts/baz-0.0.1.tgz'' [] ''/tmp'' Map.empty)
       = Some ([], None, Some ErrNoOwnerRepo)
   \<and> events_of (DownloadTo example_env caller_downloader
                   ''https://example.net/charts/baz-0.0.1.tgz'' [] ''/tmp'' Map.empty) = []"
  by code_simp

text \<open>
  Claim C2. An absolute URL whose owner the scan finds is to resolve to a transport
  bound with the merged credentials of that repository. The code returns the
  transport as the constructor built it, without the call of \<open>SetCredentials\<close> that
  the other paths make (\<open>resolve_owner_found\<close> above, for every environment):
  evaluated here for a URL that the index of \<open>mirror\<close> lists, once for a downloader
  without credentials and once for one with both.
\<close>

theorem owner_found_credentials_not_bound:
  "scanReposForURL example_env ''https://charts.example.org/bar-0.1.0.tgz'' example_registry
     = Some (Inr mirror_entry)
   \<and> getRepoCredentials plain_downloader
        (Some \<lparr>Config = Some mirror_entry, Client = Some (Provided 1)\<rparr>)
       = (''mirror-user'', ''mirror-pass'')
   \<and> ResolveChartVersionAndGetRepo example_env plain_downloader
        ''https://charts.example.org/bar-0.1.0.tgz'' [] =
       Some (Some (emptyURL\<lparr>Scheme := ''https'', Host := ''charts.example.org'',
                             Path := ''/bar-0.1.0.tgz''\<rparr>),
             Some \<lparr>Config = Some mirror_entry, Client = Some (Provided 1)\<rparr>,
             Some \<lparr>client = 0, username = [], password = []\<rparr>, None)
   \<and> getRepoCredentials caller_downloader
        (Some \<lparr>Config = Some mirror_entry, Client = Some (Provided 1)\<rparr>)
       = (''caller'', ''secret'')
   \<and> ResolveChartVersionAndGetRepo example_env caller_downloader
        ''https://charts.example.org/bar-0.1.0.tgz'' [] =
       Some (Some (emptyURL\<lparr>Scheme := ''https'', Host := ''charts.example.org'',
                             Path := ''/bar-0.1.0.tgz''\<rparr>),
             Some \<lparr>Config = Some mirror_entry, Client = Some (Provided 1)\<rparr>,
             Some \<lparr>client = 0, username = [], password = []\<rparr>, None)"
  by code_simp

text \<open>
  Claim C3. Take a shorthand resolution whose matched version has a relative first
  candidate URL. It succeeds exactly when the repository's base URL parses and a
  transport can be built for it, and then with this URL: the candidate resolved
  against the base URL whose path has lost a trailing slash, if it had one, and
  gained exactly one, and then given the encoded query parameters of the base URL.
  In particular \<open>charts/foo-1.2.3.tgz\<close> under \<open>https://example.com/repo?token=x\<close>
  resolves to \<open>https://example.com/repo/charts/foo-1.2.3.tgz?token=x\<close>.
\<close>

theorem relative_candidate_rebased:
  assumes "shorthand_match e ref version u g rc r cv" and "URLs cv = first # others"
    and "url_Parse e first = Inr u1" and "\<not> IsAbs u1"
  shows "(url_Parse e (URL rc) = Inr repoURL \<and> NewHTTPGetter e (URL rc) = Inr g2 \<longrightarrow>
          ResolveChartVersionAndGetRepo e c ref version =
            Some (Some ((ResolveReference e
                           (repoURL\<lparr>Path := TrimSuffix_slash (Path repoURL) @ ''/''\<rparr>) u1)
                          \<lparr>RawQuery := Values_Encode e (url_Query e repoURL)\<rparr>),
                  Some r, Some (SetCredentials g2 (getRepoCredentials c (Some r))), None))
       \<and> (resolved_error (ResolveChartVersionAndGetRepo e c ref version) = None \<longrightarrow>
            (\<exists>base g'. url_Parse e (URL rc) = Inr base \<and> NewHTTPGetter e (URL rc) = Inr g'))
       \<and> TrimSuffix_slash p @ ''/'' = (if p \<noteq> [] \<and> last p = CHR ''/'' then p else p @ ''/'')
       \<and> map_option go_String
            (resolved_URL (ResolveChartVersionAndGetRepo example_env c ''stable/foo'' ''1.2.3''))
          = Some ''https://example.com/repo/charts/foo-1.2.3.tgz?token=x''"
proof -
  have general: "url_Parse e (URL rc) = Inr repoURL \<and> NewHTTPGetter e (URL rc) = Inr g2 \<longrightarrow>
          ResolveChartVersionAndGetRepo e c ref version =
            Some (Some ((ResolveReference e
                           (repoURL\<lparr>Path := TrimSuffix_slash (Path repoURL) @ ''/''\<rparr>) u1)
                          \<lparr>RawQuery := Values_Encode e (url_Query e repoURL)\<rparr>),
                  Some r, Some (SetCredentials g2 (getRepoCredentials c (Some r))), None)"
    using resolve_relative [OF assms, of repoURL g2 c] by blast
  have only: "resolved_error (ResolveChartVersionAndGetRepo e c ref version) = None \<longrightarrow>
            (\<exists>base g'. url_Parse e (URL rc) = Inr base \<and> NewHTTPGetter e (URL rc) = Inr g')"
    using resolve_relative_success [OF assms, of c] by blast
  have slash: "TrimSuffix_slash p @ ''/'' = (if p \<noteq> [] \<and> last p = CHR ''/'' then p else p @ ''/'')"
    by (simp add: TrimSuffix_slash_def) (metis append_butlast_last_id)
  have str: "go_String ((ResolveReference example_env
       ((emptyURL\<lparr>Scheme := ''https'', Host := ''example.com'', Path := ''/repo'',
                   RawQuery := ''token=x''\<rparr>)
          \<lparr>Path := TrimSuffix_slash
                     (Path (emptyURL\<lparr>Scheme := ''https'', Host := ''example.com'',
                                      Path := ''/repo'', RawQuery := ''token=x''\<rparr>)) @ ''/''\<rparr>)
       (emptyURL\<lparr>Path := ''charts/foo-1.2.3.tgz''\<rparr>))
      \<lparr>RawQuery := Values_Encode example_env
          (url_Query example_env
             (emptyURL\<lparr>Scheme := ''https'', Host := ''example.com'', Path := ''/repo'',
                       RawQuery := ''token=x''\<rparr>))\<rparr>)
     = ''https://example.com/repo/charts/foo-1.2.3.tgz?token=x''"
    by code_simp
  have particular: "map_option go_String
           (resolved_URL (ResolveChartVersionAndGetRepo example_env c ''stable/foo'' ''1.2.3''))
         = Some ''https://example.com/repo/charts/foo-1.2.3.tgz?token=x''"
    unfolding resolve_relative [OF match_stable_foo urls_stable_foo parse_candidate
        candidate_relative parse_stable_url getter_stable_url] resolved_URL_def
    by (simp only: option.simps prod.case str)
  from general only slash particular show ?thesis by blast
qed

theorem relative_candidate_rebased_witness:
  "ResolveChartVersionAndGetRepo example_env caller_downloader ''stable/foo'' ''1.2.3'' =
     Some (Some resolved_foo, Some stable_repository,
           Some \<lparr>client = 0, username = ''caller'', password = ''secret''\<rparr>, None)"
proof -
  have both: "url_Parse example_env (URL stable_entry) =
     Inr (emptyURL\<lparr>Scheme := ''https'', Host := ''example.com'', Path := ''/repo'',
                   RawQuery := ''token=x''\<rparr>)
     \<and> NewHTTPGetter example_env (URL stable_entry) = Inr \<lparr>client = 0, username = [], password = []\<rparr>"
    using parse_stable_url getter_stable_url by (rule conjI)
  have "ResolveChartVersionAndGetRepo example_env caller_downloader ''stable/foo'' ''1.2.3'' =
     Some (Some ((ResolveReference example_env
                    ((emptyURL\<lparr>Scheme := ''https'', Host := ''example.com'', Path := ''/repo'',
                                RawQuery := ''token=x''\<rparr>)
                       \<lparr>Path := TrimSuffix_slash
                                  (Path (emptyURL\<lparr>Scheme := ''https'', Host := ''example.com'',
                                                   Path := ''/repo'', RawQuery := ''token=x''\<rparr>)) @ ''/''\<rparr>)
                    (emptyURL\<lparr>Path := ''charts/foo-1.2.3.tgz''\<rparr>))
                   \<lparr>RawQuery := Values_Encode example_env
                       (url_Query example_env
                          (emptyURL\<lparr>Scheme := ''https'', Host := ''example.com'', Path := ''/repo'',
                                    RawQuery := ''token=x''\<rparr>))\<rparr>),
           Some stable_repository,
           Some (SetCredentials \<lparr>client = 0, username = [], password = []\<rparr>
                   (getRepoCredentials caller_downloader (Some stable_repository))), None)"
    using relative_candidate_rebased [OF match_stable_foo urls_stable_foo parse_candidate
        candidate_relative,
        of "emptyURL\<lparr>Scheme := ''https'', Host := ''example.com'', Path := ''/repo'',
                     RawQuery := ''token=x''\<rparr>"
           "\<lparr>client = 0, username = [], password = []\<rparr>" caller_downloader] both
    by blast
  also have "\<dots> = Some (Some resolved_foo, Some stable_repository,
           Some \<lparr>client = 0, username = ''caller'', password = ''secret''\<rparr>, None)"
    by code_simp
  finally show ?thesis .
qed

text \<open>
  Claim C4, as amended. A provenance fetch is attempted only if the strategy is not
  \<open>VerifyNever\<close>; and in a call that has resolved the reference (to a repository
  with a client), fetched the archive and written it, the fetch is attempted if and
  only if the strategy is not \<open>VerifyNever\<close>. When that fetch fails, the call fails exactly if the strategy is
  \<open>VerifyAlways\<close>; under \<open>VerifyIfPossible\<close> and \<open>VerifyLater\<close> it returns the archive
  path with an empty verification and no error, a warning is written, and the archive
  is on disk.
\<close>

theorem provenance_fetch_policy:
  "(list_ex is_provenance_fetch (events_of (DownloadTo e c ref version dest files))
      \<longrightarrow> Verify c \<noteq> VerifyNever)
   \<and> (ResolveChartVersionAndGetRepo e c ref version = Some (Some u, Some r, Some g, None)
       \<and> Client r = Some cl
       \<and> HTTPGetter_Get e g (url_String e u) = Inr data
       \<and> WriteFile_fails e (filepath_Join e dest (filepath_Base e (Path u))) = None \<longrightarrow>
         (Verify c \<noteq> VerifyNever \<longrightarrow>
            list_ex is_provenance_fetch (events_of (DownloadTo e c ref version dest files)))
       \<and> (Getter_Get e cl (url_String e u @ ''.prov'') = Inl err \<longrightarrow>
            (failed (DownloadTo e c ref version dest files) \<longleftrightarrow> Verify c = VerifyAlways)
          \<and> (Verify c = VerifyIfPossible \<or> Verify c = VerifyLater \<longrightarrow>
               returned (DownloadTo e c ref version dest files) =
                 Some (filepath_Join e dest (filepath_Base e (Path u)), Some emptyVerification, None)
             \<and> list_ex is_warning (events_of (DownloadTo e c ref version dest files))
             \<and> files_after (DownloadTo e c ref version dest files)
                   (filepath_Join e dest (filepath_Base e (Path u))) = Some (RegularFile data))))"
proof (intro conjI impI)
  assume "list_ex is_provenance_fetch (events_of (DownloadTo e c ref version dest files))"
  then show "Verify c \<noteq> VerifyNever"
    using never_fetches_no_provenance [of c e ref version dest files] by blast
next
  assume reach: "ResolveChartVersionAndGetRepo e c ref version = Some (Some u, Some r, Some g, None)
       \<and> Client r = Some cl
       \<and> HTTPGetter_Get e g (url_String e u) = Inr data
       \<and> WriteFile_fails e (filepath_Join e dest (filepath_Base e (Path u))) = None"
  then have r1: "ResolveChartVersionAndGetRepo e c ref version = Some (Some u, Some r, Some g, None)"
    and r2: "Client r = Some cl"
    and r3: "HTTPGetter_Get e g (url_String e u) = Inr data"
    and r4: "WriteFile_fails e (filepath_Join e dest (filepath_Base e (Path u))) = None"
    by blast+
  note D = download_after_write [OF r1 r2 r3 r4, of files]
  {
    assume "Verify c \<noteq> VerifyNever"
    then show "list_ex is_provenance_fetch (events_of (DownloadTo e c ref version dest files))"
      unfolding D by (simp add: events_of_def Let_def split: sum.split)
  }
  assume fetch: "Getter_Get e cl (url_String e u @ ''.prov'') = Inl err"
  show "failed (DownloadTo e c ref version dest files) \<longleftrightarrow> Verify c = VerifyAlways"
    unfolding D using fetch by (simp add: failed_def Let_def)
  assume lenient: "Verify c = VerifyIfPossible \<or> Verify c = VerifyLater"
  show "returned (DownloadTo e c ref version dest files) =
          Some (filepath_Join e dest (filepath_Base e (Path u)), Some emptyVerification, None)"
    unfolding D using fetch lenient by (auto simp: returned_def Let_def)
  show "list_ex is_warning (events_of (DownloadTo e c ref version dest files))"
    unfolding D using fetch lenient by (auto simp: events_of_def Let_def)
  show "files_after (DownloadTo e c ref version dest files)
          (filepath_Join e dest (filepath_Base e (Path u))) = Some (RegularFile data)"
    unfolding D using fetch lenient by (auto simp: files_after_def Let_def)
qed

theorem provenance_fetch_policy_witness:
  "returned (DownloadTo example_env checking_downloader ''stable/foo'' ''1.2.3'' ''/tmp'' Map.empty)
     = Some (''/tmp/foo-1.2.3.tgz'', Some emptyVerification, None)
   \<and> list_ex is_provenance_fetch
        (events_of (DownloadTo example_env checking_downloader ''stable/foo'' ''1.2.3'' ''/tmp'' Map.empty))
   \<and> list_ex is_warning
        (events_of (DownloadTo example_env checking_downloader ''stable/foo'' ''1.2.3'' ''/tmp'' Map.empty))
   \<and> files_after (DownloadTo example_env checking_downloader ''stable/foo'' ''1.2.3'' ''/tmp'' Map.empty)
        ''/tmp/foo-1.2.3.tgz'' = Some (RegularFile ''archive'')"
proof -
  note T = provenance_fetch_policy [of example_env checking_downloader "''stable/foo''" "''1.2.3''"
      "''/tmp''" Map.empty resolved_foo stable_repository stable_getter "Provided 1" "''archive''"
      "''404 Not Found''"]
  have reach: "ResolveChartVersionAndGetRepo example_env checking_downloader ''stable/foo'' ''1.2.3''
        = Some (Some resolved_foo, Some stable_repository, Some stable_getter, None)
       \<and> Client stable_repository = Some (Provided 1)
       \<and> HTTPGetter_Get example_env stable_getter (url_String example_env resolved_foo) = Inr ''archive''
       \<and> WriteFile_fails example_env
            (filepath_Join example_env ''/tmp'' (filepath_Base example_env (Path resolved_foo))) = None"
    by code_simp
  have fetch: "Getter_Get example_env (Provided 1) (url_String example_env resolved_foo @ ''.prov'')
                 = Inl ''404 Not Found''"
    by code_simp
  have strategy: "Verify checking_downloader \<noteq> VerifyNever"
    "Verify checking_downloader = VerifyIfPossible \<or> Verify checking_downloader = VerifyLater"
    by (simp_all add: checking_downloader_def)
  have path: "filepath_Join example_env ''/tmp'' (filepath_Base example_env (Path resolved_foo))
                = ''/tmp/foo-1.2.3.tgz''"
    by code_simp
  from T reach fetch strategy
  have "returned (DownloadTo example_env checking_downloader ''stable/foo'' ''1.2.3'' ''/tmp'' Map.empty)
     = Some (filepath_Join example_env ''/tmp'' (filepath_Base example_env (Path resolved_foo)),
             Some emptyVerification, None)
   \<and> list_ex is_provenance_fetch
        (events_of (DownloadTo example_env checking_downloader ''stable/foo'' ''1.2.3'' ''/tmp'' Map.empty))
   \<and> list_ex is_warning
        (events_of (DownloadTo example_env checking_downloader ''stable/foo'' ''1.2.3'' ''/tmp'' Map.empty))
   \<and> files_after (DownloadTo example_env checking_downloader ''stable/foo'' ''1.2.3'' ''/tmp'' Map.empty)
        (filepath_Join example_env ''/tmp'' (filepath_Base example_env (Path resolved_foo)))
        = Some (RegularFile ''archive'')"
    by blast
  then show ?thesis unfolding path .
qed

text \<open>
  Without the condition on the call the equivalence fails: a reference to a
  repository that the registry does not know fails in the resolution, and no
  provenance fetch is attempted although the strategy is \<open>VerifyIfPossible\<close>.
\<close>

theorem provenance_fetch_needs_archive:
  "Verify checking_downloader \<noteq> VerifyNever
   \<and> \<not> list_ex is_provenance_fetch
         (events_of (DownloadTo example_env checking_downloader ''unknown/foo'' [] ''/tmp'' Map.empty))
   \<and> returned (DownloadTo example_env checking_downloader ''unknown/foo'' [] ''/tmp'' Map.empty)
       = Some ([], None, Some (RepoNotFound ''unknown''))"
  by code_simp

text \<open>
  Claim C5, as amended. The provenance verifier is invoked only if the strategy is
  neither \<open>VerifyNever\<close> nor \<open>VerifyLater\<close>; and in a call that has resolved the
  reference (to a repository with a client), fetched and written the archive, and
  fetched and written the provenance file, it is invoked if and only if the strategy
  is neither of the two. When it is
  invoked and fails, \<open>DownloadTo\<close> returns its error, with the verification it
  returned, whatever the strategy (\<open>VerifyIfPossible\<close> included).
\<close>

theorem verification_policy:
  "(list_ex is_verification (events_of (DownloadTo e c ref version dest files))
      \<longrightarrow> Verify c \<noteq> VerifyNever \<and> Verify c \<noteq> VerifyLater)
   \<and> (ResolveChartVersionAndGetRepo e c ref version = Some (Some u, Some r, Some g, None)
       \<and> Client r = Some cl
       \<and> HTTPGetter_Get e g (url_String e u) = Inr data
       \<and> WriteFile_fails e (filepath_Join e dest (filepath_Base e (Path u))) = None
       \<and> Getter_Get e cl (url_String e u @ ''.prov'') = Inr body
       \<and> WriteFile_fails e (filepath_Join e dest (filepath_Base e (Path u)) @ ''.prov'') = None \<longrightarrow>
         (Verify c \<noteq> VerifyNever \<and> Verify c \<noteq> VerifyLater \<longrightarrow>
            list_ex is_verification (events_of (DownloadTo e c ref version dest files)))
       \<and> (Verify c \<noteq> VerifyNever \<and> Verify c \<noteq> VerifyLater
           \<and> VerifyChart e
                (files(filepath_Join e dest (filepath_Base e (Path u)) \<mapsto> RegularFile data,
                       filepath_Join e dest (filepath_Base e (Path u)) @ ''.prov'' \<mapsto> RegularFile body))
                (filepath_Join e dest (filepath_Base e (Path u))) (Keyring c) = (ver, Some err) \<longrightarrow>
            returned (DownloadTo e c ref version dest files)
              = Some (filepath_Join e dest (filepath_Base e (Path u)), ver, Some err)))"
proof (intro conjI impI)
  assume "list_ex is_verification (events_of (DownloadTo e c ref version dest files))"
  then show "Verify c \<noteq> VerifyNever" and "Verify c \<noteq> VerifyLater"
    using verification_only_when_asked [of c e ref version dest files] by blast+
next
  assume "ResolveChartVersionAndGetRepo e c ref version = Some (Some u, Some r, Some g, None)
       \<and> Client r = Some cl
       \<and> HTTPGetter_Get e g (url_String e u) = Inr data
       \<and> WriteFile_fails e (filepath_Join e dest (filepath_Base e (Path u))) = None
       \<and> Getter_Get e cl (url_String e u @ ''.prov'') = Inr body
       \<and> WriteFile_fails e (filepath_Join e dest (filepath_Base e (Path u)) @ ''.prov'') = None"
  then have r1: "ResolveChartVersionAndGetRepo e c ref version = Some (Some u, Some r, Some g, None)"
    and r2: "Client r = Some cl"
    and r3: "HTTPGetter_Get e g (url_String e u) = Inr data"
    and r4: "WriteFile_fails e (filepath_Join e dest (filepath_Base e (Path u))) = None"
    and r5: "Getter_Get e cl (url_String e u @ ''.prov'') = Inr body"
    and r6: "WriteFile_fails e (filepath_Join e dest (filepath_Base e (Path u)) @ ''.prov'') = None"
    by blast+
  note D = download_after_write [OF r1 r2 r3 r4, of files]
  {
    assume "Verify c \<noteq> VerifyNever \<and> Verify c \<noteq> VerifyLater"
    then show "list_ex is_verification (events_of (DownloadTo e c ref version dest files))"
      unfolding D using r5 r6 by (simp add: events_of_def WriteFile_def Let_def)
  }
  assume "Verify c \<noteq> VerifyNever \<and> Verify c \<noteq> VerifyLater
           \<and> VerifyChart e
                (files(filepath_Join e dest (filepath_Base e (Path u)) \<mapsto> RegularFile data,
                       filepath_Join e dest (filepath_Base e (Path u)) @ ''.prov'' \<mapsto> RegularFile body))
                (filepath_Join e dest (filepath_Base e (Path u))) (Keyring c) = (ver, Some err)"
  then show "returned (DownloadTo e c ref version dest files)
              = Some (filepath_Join e dest (filepath_Base e (Path u)), ver, Some err)"
    unfolding D using r5 r6 by (simp add: returned_def WriteFile_def Let_def)
qed

theorem verification_policy_witness:
  "returned (DownloadTo serving_env checking_downloader ''stable/foo'' ''1.2.3'' ''/tmp'' Map.empty)
     = Some (''/tmp/foo-1.2.3.tgz'', None, Some (External ''openpgp: invalid signature''))
   \<and> list_ex is_verification
        (events_of (DownloadTo serving_env checking_downloader ''stable/foo'' ''1.2.3'' ''/tmp'' Map.empty))"
proof -
  note T = verification_policy [of serving_env checking_downloader "''stable/foo''" "''1.2.3''"
      "''/tmp''" Map.empty resolved_foo stable_repository stable_getter "Provided 1" "''archive''"
      "''signature''" None "External ''openpgp: invalid signature''"]
  have reach: "ResolveChartVersionAndGetRepo serving_env checking_downloader ''stable/foo'' ''1.2.3''
        = Some (Some resolved_foo, Some stable_repository, Some stable_getter, None)
       \<and> Client stable_repository = Some (Provided 1)
       \<and> HTTPGetter_Get serving_env stable_getter (url_String serving_env resolved_foo) = Inr ''archive''
       \<and> WriteFile_fails serving_env
            (filepath_Join serving_env ''/tmp'' (filepath_Base serving_env (Path resolved_foo))) = None
       \<and> Getter_Get serving_env (Provided 1) (url_String serving_env resolved_foo @ ''.prov'')
            = Inr ''signature''
       \<and> WriteFile_fails serving_env
            (filepath_Join serving_env ''/tmp'' (filepath_Base serving_env (Path resolved_foo)) @ ''.prov'')
            = None"
    by code_simp
  have strategy: "Verify checking_downloader \<noteq> VerifyNever \<and> Verify checking_downloader \<noteq> VerifyLater"
    by (simp add: checking_downloader_def)
  have verify: "VerifyChart serving_env
                (Map.empty(filepath_Join serving_env ''/tmp'' (filepath_Base serving_env (Path resolved_foo))
                              \<mapsto> RegularFile ''archive'',
                           filepath_Join serving_env ''/tmp'' (filepath_Base serving_env (Path resolved_foo))
                              @ ''.prov'' \<mapsto> RegularFile ''signature''))
                (filepath_Join serving_env ''/tmp'' (filepath_Base serving_env (Path resolved_foo)))
                (Keyring checking_downloader)
              = (None, Some (External ''openpgp: invalid signature''))"
    by code_simp
  have path: "filepath_Join serving_env ''/tmp'' (filepath_Base serving_env (Path resolved_foo))
                = ''/tmp/foo-1.2.3.tgz''"
    by code_simp
  from T reach strategy verify
  have "returned (DownloadTo serving_env checking_downloader ''stable/foo'' ''1.2.3'' ''/tmp'' Map.empty)
     = Some (filepath_Join serving_env ''/tmp'' (filepath_Base serving_env (Path resolved_foo)),
             None, Some (External ''openpgp: invalid signature''))
   \<and> list_ex is_verification
        (events_of (DownloadTo serving_env checking_downloader ''stable/foo'' ''1.2.3'' ''/tmp'' Map.empty))"
    by blast
  then show ?thesis unfolding path .
qed

text \<open>
  Without the condition on the call the equivalence fails: when the provenance file
  cannot be fetched under \<open>VerifyIfPossible\<close>, the call warns and succeeds, and the
  verifier is not invoked.
\<close>

theorem verification_needs_provenance:
  "Verify checking_downloader \<noteq> VerifyNever \<and> Verify checking_downloader \<noteq> VerifyLater
   \<and> \<not> list_ex is_verification
         (events_of (DownloadTo example_env checking_downloader ''stable/foo'' ''1.2.3'' ''/tmp'' Map.empty))
   \<and> returned (DownloadTo example_env checking_downloader ''stable/foo'' ''1.2.3'' ''/tmp'' Map.empty)
       = Some (''/tmp/foo-1.2.3.tgz'', Some emptyVerification, None)"
  by code_simp

text \<open>
  Claim C6. The effective credentials are computed field by field: the downloader's
  user name (password) is used when it is set, and an unset field falls back to the
  repository entry's value; with both of the downloader's fields set, the repository's
  are overridden. Without a repository, or without its configuration, the
  downloader's own fields are the result.
\<close>

theorem getRepoCredentials_fieldwise:
  "getRepoCredentials c (Some (r\<lparr>Config := Some cfg\<rparr>)) =
     (if ChartDownloader.Username c = [] then Entry.Username cfg else ChartDownloader.Username c,
      if ChartDownloader.Password c = [] then Entry.Password cfg else ChartDownloader.Password c)
   \<and> getRepoCredentials c (Some (r\<lparr>Config := None\<rparr>)) =
       (ChartDownloader.Username c, ChartDownloader.Password c)
   \<and> getRepoCredentials c None = (ChartDownloader.Username c, ChartDownloader.Password c)"
  by (simp add: getRepoCredentials_def)

text \<open>
  Claim C7. The scan goes through the repositories in registry order. When the
  repositories before \<open>rc\<close> all load and none of their indexes lists a URL equal to
  \<open>u\<close>, the scan returns \<open>rc\<close> if its index lists one, whatever follows \<open>rc\<close> in the
  registry (so of several repositories listing the URL the first is returned); it
  stops with the wrapped load error if the index of \<open>rc\<close> cannot be loaded, and
  with the constructor's error if \<open>rc\<close> cannot be set up, neither of which is the
  sentinel \<open>ErrNoOwnerRepo\<close>; and it returns the sentinel when the registry ends
  without a match.
\<close>

theorem scanReposForURL_first_owner:
  assumes "list_all (passed_over e u) pre"
  shows "(NewChartRepository e rc = Inr r \<and> Config r = Some cfg
            \<and> LoadIndexFile e (Name cfg) = Inr i \<and> index_lists e u i \<longrightarrow>
          scanReposForURL e u \<lparr>Repositories = pre @ rc # post\<rparr> = Some (Inr rc))
       \<and> (NewChartRepository e rc = Inr r \<and> Config r = Some cfg
            \<and> LoadIndexFile e (Name cfg) = Inl err \<longrightarrow>
          scanReposForURL e u \<lparr>Repositories = pre @ rc # post\<rparr>
            = Some (Inl (NoCachedRepoFound (External err))))
       \<and> (NewChartRepository e rc = Inl err \<longrightarrow>
          scanReposForURL e u \<lparr>Repositories = pre @ rc # post\<rparr> = Some (Inl (External err)))
       \<and> NoCachedRepoFound (External err) \<noteq> ErrNoOwnerRepo \<and> External err \<noteq> ErrNoOwnerRepo
       \<and> scanReposForURL e u \<lparr>Repositories = pre\<rparr> = Some (Inl ErrNoOwnerRepo)"
proof -
  have skip: "scanRepos e u (pre @ rest) = scanRepos e u rest" for rest
    using assms by (rule scanRepos_passed_over)
  have none: "scanRepos e u pre = Some (Inl ErrNoOwnerRepo)"
    using skip [of "[]"] by simp
  show ?thesis
    by (simp add: scanReposForURL_def skip none entries_match_iff)
qed

theorem scanReposForURL_first_owner_witness:
  "scanReposForURL example_env ''https://charts.example.org/bar-0.1.0.tgz''
      \<lparr>Repositories = [stable_entry] @ mirror_entry # []\<rparr> = Some (Inr mirror_entry)
   \<and> scanReposForURL example_env ''https://charts.example.org/foo-1.2.3.tgz''
      \<lparr>Repositories = [] @ stable_entry # [mirror_entry]\<rparr> = Some (Inr stable_entry)
   \<and> index_lists example_env ''https://charts.example.org/foo-1.2.3.tgz'' mirror_index
   \<and> scanReposForURL unreadable_env ''https://charts.example.org/bar-0.1.0.tgz''
      \<lparr>Repositories = [stable_entry] @ mirror_entry # []\<rparr>
       = Some (Inl (NoCachedRepoFound (External ''yaml: line 1: did not find expected key'')))
   \<and> scanReposForURL example_env ''https://example.net/charts/baz-0.0.1.tgz''
      \<lparr>Repositories = [stable_entry, mirror_entry]\<rparr> = Some (Inl ErrNoOwnerRepo)"
proof -
  have p: "list_all (passed_over example_env ''https://charts.example.org/bar-0.1.0.tgz'') [stable_entry]"
    by code_simp
  have a: "NewChartRepository example_env mirror_entry
             = Inr \<lparr>Config = Some mirror_entry, Client = Some (Provided 1)\<rparr>
           \<and> Config \<lparr>Config = Some mirror_entry, Client = Some (Provided 1)\<rparr> = Some mirror_entry
           \<and> LoadIndexFile example_env (Name mirror_entry) = Inr mirror_index
           \<and> index_lists example_env ''https://charts.example.org/bar-0.1.0.tgz'' mirror_index"
    by code_simp
  from scanReposForURL_first_owner [OF p, where rc = mirror_entry and cfg = mirror_entry
      and r = "\<lparr>Config = Some mirror_entry, Client = Some (Provided 1)\<rparr>"
      and i = mirror_index and post = "[]"] a
  have first: "scanReposForURL example_env ''https://charts.example.org/bar-0.1.0.tgz''
      \<lparr>Repositories = [stable_entry] @ mirror_entry # []\<rparr> = Some (Inr mirror_entry)"
    by blast
  have p0: "list_all (passed_over example_env ''https://charts.example.org/foo-1.2.3.tgz'') []"
    by simp
  have b: "NewChartRepository example_env stable_entry
             = Inr \<lparr>Config = Some stable_entry, Client = Some (Provided 1)\<rparr>
           \<and> Config \<lparr>Config = Some stable_entry, Client = Some (Provided 1)\<rparr> = Some stable_entry
           \<and> LoadIndexFile example_env (Name stable_entry) = Inr stable_index
           \<and> index_lists example_env ''https://charts.example.org/foo-1.2.3.tgz'' stable_index"
    by code_simp
  from scanReposForURL_first_owner [OF p0, where rc = stable_entry and cfg = stable_entry
      and r = "\<lparr>Config = Some stable_entry, Client = Some (Provided 1)\<rparr>"
      and i = stable_index and post = "[mirror_entry]"] b
  have several: "scanReposForURL example_env ''https://charts.example.org/foo-1.2.3.tgz''
      \<lparr>Repositories = [] @ stable_entry # [mirror_entry]\<rparr> = Some (Inr stable_entry)"
    by blast
  have also_in_mirror: "index_lists example_env ''https://charts.example.org/foo-1.2.3.tgz'' mirror_index"
    by code_simp
  have pu: "list_all (passed_over unreadable_env ''https://charts.example.org/bar-0.1.0.tgz'') [stable_entry]"
    by code_simp
  have c: "NewChartRepository unreadable_env mirror_entry
             = Inr \<lparr>Config = Some mirror_entry, Client = Some (Provided 1)\<rparr>
           \<and> Config \<lparr>Config = Some mirror_entry, Client = Some (Provided 1)\<rparr> = Some mirror_entry
           \<and> LoadIndexFile unreadable_env (Name mirror_entry)
               = Inl ''yaml: line 1: did not find expected key''"
    by code_simp
  from scanReposForURL_first_owner [OF pu, where rc = mirror_entry and cfg = mirror_entry
      and r = "\<lparr>Config = Some mirror_entry, Client = Some (Provided 1)\<rparr>"
      and err = "''yaml: line 1: did not find expected key''" and post = "[]"] c
  have broken: "scanReposForURL unreadable_env ''https://charts.example.org/bar-0.1.0.tgz''
      \<lparr>Repositories = [stable_entry] @ mirror_entry # []\<rparr>
       = Some (Inl (NoCachedRepoFound (External ''yaml: line 1: did not find expected key'')))"
    by blast
  have q: "list_all (passed_over example_env ''https://example.net/charts/baz-0.0.1.tgz'')
             [stable_entry, mirror_entry]"
    by code_simp
  from scanReposForURL_first_owner [OF q]
  have nobody: "scanReposForURL example_env ''https://example.net/charts/baz-0.0.1.tgz''
      \<lparr>Repositories = [stable_entry, mirror_entry]\<rparr> = Some (Inl ErrNoOwnerRepo)"
    by blast
  from first several also_in_mirror broken nobody show ?thesis by blast
qed

text \<open>
  Claim C8. For a shorthand reference whose lookup matches a version entry: when the
  entry has no candidate URL the resolution returns the error "no downloadable URLs",
  which is a constructor of its own; otherwise only the first candidate counts. An
  absolute first candidate is the resolved URL whatever candidates follow it, and
  cutting every matched entry down to its first candidate changes no resolution.
\<close>

theorem first_candidate_decides:
  "(shorthand_match e ref version u g rc r cv \<and> URLs cv = [] \<longrightarrow>
      ResolveChartVersionAndGetRepo e c ref version =
        Some (Some u, Some r, Some (SetCredentials g (getRepoCredentials c (Some r))),
              Some (NoDownloadableURLs ref)))
   \<and> (shorthand_match e ref version u g rc r cv \<and> URLs cv = first # others
        \<and> url_Parse e first = Inr u1 \<and> IsAbs u1 \<longrightarrow>
      ResolveChartVersionAndGetRepo e c ref version =
        Some (Some u1, Some r, Some (SetCredentials g (getRepoCredentials c (Some r))), None))
   \<and> ResolveChartVersionAndGetRepo (first_candidate_only e) c ref version =
      ResolveChartVersionAndGetRepo e c ref version"
  using resolve_no_urls [of e ref version u g rc r cv c]
    resolve_absolute_candidate [of e ref version u g rc r cv first others u1 c]
    resolve_first_candidate_only [of e c ref version]
  by blast

theorem first_candidate_decides_witness:
  "ResolveChartVersionAndGetRepo example_env caller_downloader ''stable/empty'' [] =
     Some (Some (emptyURL\<lparr>Path := ''stable/empty''\<rparr>),
           Some \<lparr>Config = Some stable_entry, Client = Some (Provided 1)\<rparr>,
           Some \<lparr>client = 0, username = ''caller'', password = ''secret''\<rparr>,
           Some (NoDownloadableURLs ''stable/empty''))"
proof -
  have c: "SetCredentials \<lparr>client = 0, username = [], password = []\<rparr>
             (getRepoCredentials caller_downloader
                (Some \<lparr>Config = Some stable_entry, Client = Some (Provided 1)\<rparr>))
           = \<lparr>client = 0, username = ''caller'', password = ''secret''\<rparr>"
    by code_simp
  from first_candidate_decides [of example_env "''stable/empty''" "[]"
      "emptyURL\<lparr>Path := ''stable/empty''\<rparr>" "\<lparr>client = 0, username = [], password = []\<rparr>"
      stable_entry "\<lparr>Config = Some stable_entry, Client = Some (Provided 1)\<rparr>"
      "\<lparr>Version = ''0.1.0'', URLs = [], Digest = []\<rparr>" caller_downloader]
    match_stable_empty c
  show ?thesis by simp
qed

text \<open>
  Claim C9. For a reference that parses to an absolute URL with a host and a path, the
  resolution, and with it the download, is the same for any two version strings.
\<close>

theorem absolute_reference_ignores_version:
  assumes "url_Parse e ref = Inr u" and "IsAbs u" and "length (Host u) > 0" and "length (Path u) > 0"
  shows "ResolveChartVersionAndGetRepo e c ref v1 = ResolveChartVersionAndGetRepo e c ref v2
       \<and> DownloadTo e c ref v1 dest files = DownloadTo e c ref v2 dest files"
proof -
  have "ResolveChartVersionAndGetRepo e c ref v1 = ResolveChartVersionAndGetRepo e c ref v2"
    using assms by (simp add: ResolveChartVersionAndGetRepo_def split: sum.split)
  then show ?thesis by (simp add: DownloadTo_def)
qed

theorem absolute_reference_ignores_version_witness:
  "ResolveChartVersionAndGetRepo example_env plain_downloader
      ''https://charts.example.org/bar-0.1.0.tgz'' ''1.0.0''
   = ResolveChartVersionAndGetRepo example_env plain_downloader
      ''https://charts.example.org/bar-0.1.0.tgz'' ''2.0.0''"
proof -
  have a: "IsAbs (emptyURL\<lparr>Scheme := ''https'', Host := ''charts.example.org'', Path := ''/bar-0.1.0.tgz''\<rparr>)"
    by (simp add: IsAbs_def emptyURL_def)
  have h: "length (Host (emptyURL\<lparr>Scheme := ''https'', Host := ''charts.example.org'',
                                  Path := ''/bar-0.1.0.tgz''\<rparr>)) > 0"
    by (simp add: emptyURL_def)
  have p: "length (Path (emptyURL\<lparr>Scheme := ''https'', Host := ''charts.example.org'',
                                  Path := ''/bar-0.1.0.tgz''\<rparr>)) > 0"
    by (simp add: emptyURL_def)
  from absolute_reference_ignores_version [OF parse_bar a h p]
  show ?thesis by blast
qed

text \<open>
  Claim C10. When a relative candidate URL is rebased against the repository's base
  URL, the resolution succeeds if a transport can be built for the base URL, and
  whenever it succeeds the query of the resolved URL is the encoding of the parsed
  query of the base URL and nothing else: a query that the candidate carries itself
  is not part of it.
\<close>

theorem candidate_query_discarded:
  assumes "shorthand_match e ref version u g rc r cv" and "URLs cv = first # others"
    and "url_Parse e first = Inr u1" and "\<not> IsAbs u1"
    and "url_Parse e (URL rc) = Inr repoURL"
  shows "(NewHTTPGetter e (URL rc) = Inr g2 \<longrightarrow>
            resolved_error (ResolveChartVersionAndGetRepo e c ref version) = None)
       \<and> (resolved_error (ResolveChartVersionAndGetRepo e c ref version) = None \<longrightarrow>
            map_option RawQuery (resolved_URL (ResolveChartVersionAndGetRepo e c ref version))
              = Some (Values_Encode e (url_Query e repoURL)))"
  unfolding resolve_relative_cases [OF assms(1-4)]
  using assms(5)
  by (cases "NewHTTPGetter e (URL rc)") (simp_all add: resolved_URL_def resolved_error_def)

theorem candidate_query_discarded_witness:
  "map_option RawQuery
     (resolved_URL (ResolveChartVersionAndGetRepo example_env plain_downloader ''stable/foo'' ''1.0.0''))
     = Some ''token=x''
   \<and> url_Parse example_env ''charts/foo-1.0.0.tgz?a=b'' =
       Inr (emptyURL\<lparr>Path := ''charts/foo-1.0.0.tgz'', RawQuery := ''a=b''\<rparr>)"
proof -
  have urls: "URLs \<lparr>Version = ''1.0.0'', URLs = [''charts/foo-1.0.0.tgz?a=b''], Digest = []\<rparr>
                = ''charts/foo-1.0.0.tgz?a=b'' # []"
    by simp
  have rel: "\<not> IsAbs (emptyURL\<lparr>Path := ''charts/foo-1.0.0.tgz'', RawQuery := ''a=b''\<rparr>)"
    by code_simp
  have "map_option RawQuery
     (resolved_URL (ResolveChartVersionAndGetRepo example_env plain_downloader ''stable/foo'' ''1.0.0''))
     = Some (Values_Encode example_env (url_Query example_env
          (emptyURL\<lparr>Scheme := ''https'', Host := ''example.com'', Path := ''/repo'',
                   RawQuery := ''token=x''\<rparr>)))"
    using candidate_query_discarded [OF match_stable_foo_old urls parse_candidate_with_query rel
        parse_stable_url, of "\<lparr>client = 0, username = [], password = []\<rparr>" plain_downloader]
      getter_stable_url
    by blast
  also have "Some (Values_Encode example_env (url_Query example_env
          (emptyURL\<lparr>Scheme := ''https'', Host := ''example.com'', Path := ''/repo'',
                   RawQuery := ''token=x''\<rparr>))) = Some ''token=x''"
    by code_simp
  finally show ?thesis using parse_candidate_with_query by (rule conjI)
qed

end
